theory Spec2Isabelle
  imports Complex_Main
begin

section \<open>Numbers\<close>

text \<open>
  Python floats are modelled as real numbers; where a claim depends on the rounding of
  an operation, the operation is rounded explicitly (section Double arithmetic). The one
  non-finite value the code produces, \<^verbatim>\<open>float('inf')\<close>, is the constructor
  \<open>Infinity\<close> of a separate type, so that it is distinct from every finite result.
\<close>

datatype xfloat = Fin real | Infinity

text \<open>\<^verbatim>\<open>x > 0\<close> on a value that may be \<^verbatim>\<open>float('inf')\<close>.\<close>

fun xfloat_pos :: "xfloat \<Rightarrow> bool" where
  "xfloat_pos (Fin r) = (0 < r)"
| "xfloat_pos Infinity = True"

text \<open>Python's \<^verbatim>\<open>int(x)\<close> on a float truncates toward zero.\<close>

definition py_int :: "real \<Rightarrow> int" where
  "py_int x = (if 0 \<le> x then \<lfloor>x\<rfloor> else \<lceil>x\<rceil>)"

section \<open>Strategy models (options\_models.py)\<close>

text \<open>
  One constructor per subclass of \<^verbatim>\<open>OptionsStrategy\<close>, holding the constructor
  arguments in the order of the source's \<^verbatim>\<open>__init__\<close> (without symbol, current
  price and expiration, which live in the base class).
\<close>

datatype legs =
    IronCondor real real real real real
      \<comment> \<open>short\_call\_strike, long\_call\_strike, short\_put\_strike, long\_put\_strike, net\_credit\<close>
  | Straddle real real real
      \<comment> \<open>strike, call\_premium, put\_premium\<close>
  | Strangle real real real real
      \<comment> \<open>call\_strike, put\_strike, call\_premium, put\_premium\<close>
  | CallSpread real real real real
      \<comment> \<open>buy\_strike, sell\_strike, buy\_premium, sell\_premium\<close>
  | PutSpread real real real real
      \<comment> \<open>buy\_strike, sell\_strike, buy\_premium, sell\_premium\<close>
  | Butterfly real real real real real real
      \<comment> \<open>low\_strike, middle\_strike, high\_strike, low\_premium, middle\_premium, high\_premium\<close>

text \<open>
  The attributes the constructors derive: \<^verbatim>\<open>total_cost\<close> (Straddle, Strangle) and
  \<^verbatim>\<open>net_debit\<close> (CallSpread, PutSpread, Butterfly). The code never reassigns them.
\<close>

fun total_cost :: "legs \<Rightarrow> real option" where
  "total_cost (Straddle k cp pp) = Some (cp + pp)"
| "total_cost (Strangle ck pk cp pp) = Some (cp + pp)"
| "total_cost _ = None"

fun net_debit :: "legs \<Rightarrow> real option" where
  "net_debit (CallSpread b s bp sp) = Some (bp - sp)"
| "net_debit (PutSpread b s bp sp) = Some (bp - sp)"
| "net_debit (Butterfly lo mi hi lp mp hp) = Some (lp - (2 * mp) + hp)"
| "net_debit _ = None"

fun net_credit :: "legs \<Rightarrow> real option" where
  "net_credit (IronCondor sc lc sp lp nc) = Some nc"
| "net_credit _ = None"

text \<open>\<^verbatim>\<open>strategy.__class__.__name__\<close>\<close>

fun class_name :: "legs \<Rightarrow> string" where
  "class_name (IronCondor _ _ _ _ _) = ''IronCondor''"
| "class_name (Straddle _ _ _) = ''Straddle''"
| "class_name (Strangle _ _ _ _) = ''Strangle''"
| "class_name (CallSpread _ _ _ _) = ''CallSpread''"
| "class_name (PutSpread _ _ _ _) = ''PutSpread''"
| "class_name (Butterfly _ _ _ _ _ _) = ''Butterfly''"

fun calculate_payoff :: "legs \<Rightarrow> real \<Rightarrow> real" where
  "calculate_payoff (IronCondor sc lc sp lp nc) stock_price =
     (let call_spread_payoff = (if stock_price > sc then min (stock_price - sc) (lc - sc) else 0);
          put_spread_payoff = (if stock_price < sp then min (sp - stock_price) (sp - lp) else 0);
          total_loss = call_spread_payoff + put_spread_payoff
      in nc - total_loss)"
| "calculate_payoff (Straddle k cp pp) stock_price =
     (let call_payoff = max 0 (stock_price - k) - cp;
          put_payoff = max 0 (k - stock_price) - pp
      in call_payoff + put_payoff)"
| "calculate_payoff (Strangle ck pk cp pp) stock_price =
     (let call_payoff = max 0 (stock_price - ck) - cp;
          put_payoff = max 0 (pk - stock_price) - pp
      in call_payoff + put_payoff)"
| "calculate_payoff (CallSpread b s bp sp) stock_price =
     (if stock_price \<le> b then - (bp - sp)
      else if stock_price \<le> s then (stock_price - b) - (bp - sp)
      else (s - b) - (bp - sp))"
| "calculate_payoff (PutSpread b s bp sp) stock_price =
     (if stock_price \<ge> b then - (bp - sp)
      else if stock_price \<ge> s then (b - stock_price) - (bp - sp)
      else (b - s) - (bp - sp))"
| "calculate_payoff (Butterfly lo mi hi lp mp hp) stock_price =
     (let nd = lp - (2 * mp) + hp in
      if stock_price \<le> lo then - nd
      else if stock_price \<le> mi then (stock_price - lo) - nd
      else if stock_price \<le> hi then (mi - lo) - (stock_price - mi) - nd
      else - nd)"

fun get_max_profit :: "legs \<Rightarrow> xfloat" where
  "get_max_profit (IronCondor sc lc sp lp nc) = Fin nc"
| "get_max_profit (Straddle k cp pp) = Infinity"
| "get_max_profit (Strangle ck pk cp pp) = Infinity"
| "get_max_profit (CallSpread b s bp sp) = Fin ((s - b) - (bp - sp))"
| "get_max_profit (PutSpread b s bp sp) = Fin ((b - s) - (bp - sp))"
| "get_max_profit (Butterfly lo mi hi lp mp hp) = Fin ((mi - lo) - (lp - (2 * mp) + hp))"

fun get_max_loss :: "legs \<Rightarrow> real" where
  "get_max_loss (IronCondor sc lc sp lp nc) =
     (let call_spread_width = lc - sc;
          put_spread_width = sp - lp
      in max call_spread_width put_spread_width - nc)"
| "get_max_loss (Straddle k cp pp) = cp + pp"
| "get_max_loss (Strangle ck pk cp pp) = cp + pp"
| "get_max_loss (CallSpread b s bp sp) = bp - sp"
| "get_max_loss (PutSpread b s bp sp) = bp - sp"
| "get_max_loss (Butterfly lo mi hi lp mp hp) = lp - (2 * mp) + hp"

section \<open>Double arithmetic\<close>

text \<open>
  Where a claim depends on rounding, the operations are those of IEEE 754 binary64, as
  Python's floats are: the exact result, rounded to the nearest number with a significand
  of 53 bits, ties to the even significand. Overflow and subnormal numbers are left out:
  the exponent is unbounded. (Sums and differences that fall in the subnormal range are
  exact in binary64, so the error bound below holds for them too.)
\<close>

fun log2_floor :: "nat \<Rightarrow> nat" where
  "log2_floor n = (if n < 2 then 0 else Suc (log2_floor (n div 2)))"

declare log2_floor.simps [simp del]

definition pow2 :: "int \<Rightarrow> real" where
  "pow2 k = (if 0 \<le> k then 2 ^ nat k else 1 / 2 ^ nat (- k))"

text \<open>The binary exponent of a number other than 0: \<open>2 ^ e \<le> |x| < 2 ^ (e + 1)\<close>.\<close>

definition exponent :: "real \<Rightarrow> int" where
  "exponent x =
     (if 1 \<le> \<bar>x\<bar> then int (log2_floor (nat \<lfloor>\<bar>x\<bar>\<rfloor>))
      else - int (Suc (log2_floor (nat (\<lceil>1 / \<bar>x\<bar>\<rceil> - 1)))))"

definition round_half_even :: "real \<Rightarrow> int" where
  "round_half_even y =
     (let f = \<lfloor>y\<rfloor>; d = y - real_of_int f
      in if d < 1 / 2 then f else if 1 / 2 < d then f + 1
         else if even f then f else f + 1)"

definition round_double :: "real \<Rightarrow> real" where
  "round_double x =
     (if x = 0 then 0
      else let ulp = pow2 (exponent x - 52)
           in ulp * real_of_int (round_half_even (x / ulp)))"

text \<open>
  The break-even prices and the payoff with every arithmetic operation of the source
  rounded by \<open>rnd\<close>, in the order in which Python evaluates them; comparisons,
  \<^verbatim>\<open>min\<close>, \<^verbatim>\<open>max\<close> and negation are exact. The constructors compute
  \<^verbatim>\<open>total_cost\<close> and \<^verbatim>\<open>net_debit\<close> with the same operations. With
  \<open>rnd = round_double\<close> this is the program; with the identity it is the payoff in
  exact arithmetic, \<open>calculate_payoff\<close>.
\<close>

fun get_break_even_points :: "(real \<Rightarrow> real) \<Rightarrow> legs \<Rightarrow> real list" where
  "get_break_even_points rnd (IronCondor sc lc sp lp nc) =
     (let upper_be = rnd (sc + nc); lower_be = rnd (sp - nc) in [lower_be, upper_be])"
| "get_break_even_points rnd (Straddle k cp pp) =
     (let tc = rnd (cp + pp); upper_be = rnd (k + tc); lower_be = rnd (k - tc)
      in [lower_be, upper_be])"
| "get_break_even_points rnd (Strangle ck pk cp pp) =
     (let tc = rnd (cp + pp); upper_be = rnd (ck + tc); lower_be = rnd (pk - tc)
      in [lower_be, upper_be])"
| "get_break_even_points rnd (CallSpread b s bp sp) =
     (let nd = rnd (bp - sp) in [rnd (b + nd)])"
| "get_break_even_points rnd (PutSpread b s bp sp) =
     (let nd = rnd (bp - sp) in [rnd (b - nd)])"
| "get_break_even_points rnd (Butterfly lo mi hi lp mp hp) =
     (let nd = rnd (rnd (lp - rnd (2 * mp)) + hp);
          lower_be = rnd (lo + nd); upper_be = rnd (hi - nd)
      in [lower_be, upper_be])"

fun calculate_payoff_rnd :: "(real \<Rightarrow> real) \<Rightarrow> legs \<Rightarrow> real \<Rightarrow> real" where
  "calculate_payoff_rnd rnd (IronCondor sc lc sp lp nc) stock_price =
     (let call_spread_payoff =
            (if stock_price > sc then min (rnd (stock_price - sc)) (rnd (lc - sc)) else 0);
          put_spread_payoff =
            (if stock_price < sp then min (rnd (sp - stock_price)) (rnd (sp - lp)) else 0);
          total_loss = rnd (call_spread_payoff + put_spread_payoff)
      in rnd (nc - total_loss))"
| "calculate_payoff_rnd rnd (Straddle k cp pp) stock_price =
     (let call_payoff = rnd (max 0 (rnd (stock_price - k)) - cp);
          put_payoff = rnd (max 0 (rnd (k - stock_price)) - pp)
      in rnd (call_payoff + put_payoff))"
| "calculate_payoff_rnd rnd (Strangle ck pk cp pp) stock_price =
     (let call_payoff = rnd (max 0 (rnd (stock_price - ck)) - cp);
          put_payoff = rnd (max 0 (rnd (pk - stock_price)) - pp)
      in rnd (call_payoff + put_payoff))"
| "calculate_payoff_rnd rnd (CallSpread b s bp sp) stock_price =
     (let nd = rnd (bp - sp) in
      if stock_price \<le> b then - nd
      else if stock_price \<le> s then rnd (rnd (stock_price - b) - nd)
      else rnd (rnd (s - b) - nd))"
| "calculate_payoff_rnd rnd (PutSpread b s bp sp) stock_price =
     (let nd = rnd (bp - sp) in
      if stock_price \<ge> b then - nd
      else if stock_price \<ge> s then rnd (rnd (b - stock_price) - nd)
      else rnd (rnd (b - s) - nd))"
| "calculate_payoff_rnd rnd (Butterfly lo mi hi lp mp hp) stock_price =
     (let nd = rnd (rnd (lp - rnd (2 * mp)) + hp) in
      if stock_price \<le> lo then - nd
      else if stock_price \<le> mi then rnd (rnd (stock_price - lo) - nd)
      else if stock_price \<le> hi
           then rnd (rnd (rnd (mi - lo) - rnd (stock_price - mi)) - nd)
      else - nd)"

text \<open>
  The floating tolerance of a strategy: \<open>2 ^ - 48\<close> times the sum of the absolute values
  of its strikes and premiums (32 times the unit roundoff of that sum).
\<close>

fun magnitude :: "legs \<Rightarrow> real" where
  "magnitude (IronCondor sc lc sp lp nc) = \<bar>sc\<bar> + \<bar>lc\<bar> + \<bar>sp\<bar> + \<bar>lp\<bar> + \<bar>nc\<bar>"
| "magnitude (Straddle k cp pp) = \<bar>k\<bar> + \<bar>cp\<bar> + \<bar>pp\<bar>"
| "magnitude (Strangle ck pk cp pp) = \<bar>ck\<bar> + \<bar>pk\<bar> + \<bar>cp\<bar> + \<bar>pp\<bar>"
| "magnitude (CallSpread b s bp sp) = \<bar>b\<bar> + \<bar>s\<bar> + \<bar>bp\<bar> + \<bar>sp\<bar>"
| "magnitude (PutSpread b s bp sp) = \<bar>b\<bar> + \<bar>s\<bar> + \<bar>bp\<bar> + \<bar>sp\<bar>"
| "magnitude (Butterfly lo mi hi lp mp hp) =
     \<bar>lo\<bar> + \<bar>mi\<bar> + \<bar>hi\<bar> + \<bar>lp\<bar> + \<bar>mp\<bar> + \<bar>hp\<bar>"

definition tolerance :: "legs \<Rightarrow> real" where
  "tolerance l = magnitude l / 2 ^ 48"

section \<open>Risk analyzer (strategy\_analyzer.py)\<close>

definition calculate_risk_reward_ratio :: "legs \<Rightarrow> xfloat" where
  "calculate_risk_reward_ratio l =
     (let max_profit = get_max_profit l;
          max_loss = \<bar>get_max_loss l\<bar>
      in if max_loss = 0 then (if xfloat_pos max_profit then Infinity else Fin 0)
         else (case max_profit of Fin m \<Rightarrow> Fin (m / max_loss) | Infinity \<Rightarrow> Fin 0))"

text \<open>
  The ratio as the specification words it: \<open>max_profit / |max_loss|\<close> when
  \<open>max_loss \<noteq> 0\<close> (an infinite profit divided by a positive finite loss is infinite);
  when \<open>max_loss = 0\<close>, infinite if \<open>max_profit > 0\<close> and 0 otherwise.
\<close>

definition spec_risk_reward_ratio :: "legs \<Rightarrow> xfloat" where
  "spec_risk_reward_ratio l =
     (if get_max_loss l \<noteq> 0
      then (case get_max_profit l of Fin m \<Rightarrow> Fin (m / \<bar>get_max_loss l\<bar>) | Infinity \<Rightarrow> Infinity)
      else (if xfloat_pos (get_max_profit l) then Infinity else Fin 0))"

section \<open>Trading engine (trading\_engine.py)\<close>

datatype py_error = IndexError | ValueError | ZeroDivisionError

text \<open>
  Dates are day numbers; \<^verbatim>\<open>(d1 - d2).days\<close> is the difference. The base class
  \<^verbatim>\<open>OptionsStrategy\<close> holds symbol, current price, expiration and entry date; the
  variant and its parameters are in \<open>s_legs\<close>.
\<close>

record strategy =
  s_symbol :: string
  s_current_price :: real
  s_expiration :: int
  s_entry_date :: int
  s_legs :: legs

record trade =
  t_id :: string
  t_symbol :: string
  t_strategy_type :: string
  t_entry_date :: int
  t_exit_date :: int
  t_entry_price :: real
  t_exit_price :: real
  t_quantity :: int
  t_pnl :: real
  t_action :: string

record position =
  p_id :: string
  p_symbol :: string
  p_strategy_type :: string
  p_entry_date :: int
  p_entry_price :: real
  p_quantity :: int
  p_current_price :: real
  p_unrealized_pnl :: real

record simulation_config =
  initial_capital :: real
  risk_per_trade :: real
  max_concurrent_trades :: int
  simulation_days :: int

text \<open>
  The engine's attributes. \<open>trade_counter\<close> starts at 0 and is only ever incremented,
  hence a natural number. \<open>draws\<close> is the state of the global random generator: the
  number of values \<^verbatim>\<open>random.normalvariate\<close> has returned so far; the values
  themselves are a parameter \<open>nv\<close> of the functions that draw.
\<close>

record engine =
  cash :: real
  positions :: "position list"
  trades :: "trade list"
  strategies :: "strategy list"
  config :: simulation_config
  current_date :: int
  trade_counter :: nat
  draws :: nat

record simulation_result =
  final_value :: real
  total_return :: real
  total_trades :: int
  winning_trades :: int
  losing_trades :: int
  win_rate :: real
  result_trades :: "trade list"

subsection \<open>Identifiers: the format \<^verbatim>\<open>04d\<close>\<close>

definition digit_char :: "nat \<Rightarrow> char" where
  "digit_char d = ''0123456789'' ! d"

fun decimal :: "nat \<Rightarrow> string" where
  "decimal n = (if n < 10 then [digit_char n] else decimal (n div 10) @ [digit_char (n mod 10)])"

declare decimal.simps [simp del]

definition format_04d :: "nat \<Rightarrow> string" where
  "format_04d n = replicate (4 - length (decimal n)) (CHR ''0'') @ decimal n"

subsection \<open>Properties of a strategy\<close>

text \<open>\<open>today\<close> is the value of \<^verbatim>\<open>date.today()\<close>, taken as constant during a call.\<close>

definition days_to_expiration :: "int \<Rightarrow> strategy \<Rightarrow> int" where
  "days_to_expiration today s = s_expiration s - today"

definition is_expired :: "int \<Rightarrow> strategy \<Rightarrow> bool" where
  "is_expired today s = (days_to_expiration today s \<le> 0)"

text \<open>\<^verbatim>\<open>next((s for s in self.strategies if s.symbol == symbol), None)\<close>\<close>

definition find_strategy :: "string \<Rightarrow> strategy list \<Rightarrow> strategy option" where
  "find_strategy symb ss = find (\<lambda>s. s_symbol s = symb) ss"

text \<open>
  \<^verbatim>\<open>strategy.current_price = v\<close> on the strategy that lookup returns: the first one
  of the list with that symbol.
\<close>

fun set_strategy_price :: "string \<Rightarrow> real \<Rightarrow> strategy list \<Rightarrow> strategy list" where
  "set_strategy_price symb v [] = []"
| "set_strategy_price symb v (s # ss) =
     (if s_symbol s = symb then s\<lparr>s_current_price := v\<rparr> # ss
      else s # set_strategy_price symb v ss)"

subsection \<open>Sizing, entry and exit rules\<close>

definition calculate_position_size :: "engine \<Rightarrow> strategy \<Rightarrow> int" where
  "calculate_position_size e s =
     (let max_risk_amount = cash e * risk_per_trade (config e);
          max_loss = \<bar>get_max_loss (s_legs s)\<bar>
      in if max_loss \<le> 0 then 0
         else let position_size = py_int (max_risk_amount / max_loss)
              in min position_size 10)"

text \<open>
  \<^verbatim>\<open>isinstance(strategy, type(self.strategies[0]))\<close> compares classes (no strategy
  class derives from another); \<^verbatim>\<open>self.strategies[0]\<close> raises IndexError on an empty
  list; \<^verbatim>\<open>hasattr\<close> asks whether the variant has the attribute.
\<close>

definition should_enter_trade :: "int \<Rightarrow> engine \<Rightarrow> strategy \<Rightarrow> py_error + bool" where
  "should_enter_trade today e s =
     (let position_size = calculate_position_size e s in
      if position_size \<le> 0 then Inr False
      else if int (length (positions e)) \<ge> max_concurrent_trades (config e) then Inr False
      else if is_expired today s then Inr False
      else let days_to_exp = days_to_expiration today s in
        (case strategies e of
           [] \<Rightarrow> Inl IndexError
         | s0 # _ \<Rightarrow>
             if class_name (s_legs s) = class_name (s_legs s0) \<and> net_credit (s_legs s) \<noteq> None
             then Inr (30 \<le> days_to_exp \<and> days_to_exp \<le> 45)
             else if total_cost (s_legs s) \<noteq> None
             then Inr (15 \<le> days_to_exp \<and> days_to_exp \<le> 30)
             else Inr True))"

definition should_exit_trade :: "int \<Rightarrow> engine \<Rightarrow> position \<Rightarrow> strategy \<Rightarrow> bool" where
  "should_exit_trade today e p s =
     (if is_expired today s then True
      else let days_held = current_date e - p_entry_date p in
      if real_of_int days_held \<ge> real_of_int (days_to_expiration today s) * 0.5 then True
      else let current_pnl = p_unrealized_pnl p; max_profit = get_max_profit (s_legs s) in
      if (case max_profit of Fin m \<Rightarrow> current_pnl \<ge> m * 0.5 | Infinity \<Rightarrow> False) then True
      else let max_loss = get_max_loss (s_legs s) in
      if current_pnl \<le> max_loss * 0.5 then True
      else False)"

subsection \<open>Price process and position update\<close>

definition simulate_price_movement :: "real \<Rightarrow> string \<Rightarrow> real \<Rightarrow> int \<Rightarrow> real" where
  "simulate_price_movement daily_return symb current_price days =
     (let price_change = current_price * daily_return * real_of_int days;
          new_price = current_price + price_change
      in max new_price 0.01)"

fun update_positions_loop ::
  "(nat \<Rightarrow> real) \<Rightarrow> position list \<Rightarrow> strategy list \<Rightarrow> nat \<Rightarrow> position list \<times> strategy list \<times> nat" where
  "update_positions_loop nv [] ss k = ([], ss, k)"
| "update_positions_loop nv (p # ps) ss k =
     (case find_strategy (p_symbol p) ss of
        None \<Rightarrow> (case update_positions_loop nv ps ss k of (ps', ss', k') \<Rightarrow> (p # ps', ss', k'))
      | Some s \<Rightarrow>
          let price = simulate_price_movement (nv k) (p_symbol p) (p_current_price p) 1;
              p' = p\<lparr>p_current_price := price,
                     p_unrealized_pnl := calculate_payoff (s_legs s) price * real_of_int (p_quantity p)\<rparr>
          in (case update_positions_loop nv ps (set_strategy_price (p_symbol p) price ss) (Suc k) of
                (ps', ss', k') \<Rightarrow> (p' # ps', ss', k')))"

definition update_positions :: "(nat \<Rightarrow> real) \<Rightarrow> engine \<Rightarrow> engine" where
  "update_positions nv e =
     (case update_positions_loop nv (positions e) (strategies e) (draws e) of
        (ps, ss, k) \<Rightarrow> e\<lparr>positions := ps, strategies := ss, draws := k\<rparr>)"

subsection \<open>Closing a position\<close>

text \<open>
  The result is what the call returns (\<open>Inr None\<close>, \<open>Inr (Some trade)\<close>) or raises
  (\<open>Inl\<close>), with the engine as the call leaves it. \<^verbatim>\<open>self.positions.remove(position)\<close>
  removes the first equal element and raises ValueError when there is none, after cash,
  trades and counter have been updated.
\<close>

definition close_position :: "position \<Rightarrow> engine \<Rightarrow> (py_error + trade option) \<times> engine" where
  "close_position p e =
     (case find_strategy (p_symbol p) (strategies e) of
        None \<Rightarrow> (Inr None, e)
      | Some s \<Rightarrow>
          let pnl = calculate_payoff (s_legs s) (p_current_price p) * real_of_int (p_quantity p);
              t = \<lparr>t_id = ''T'' @ format_04d (trade_counter e),
                   t_symbol = p_symbol p,
                   t_strategy_type = p_strategy_type p,
                   t_entry_date = p_entry_date p,
                   t_exit_date = current_date e,
                   t_entry_price = p_entry_price p,
                   t_exit_price = p_current_price p,
                   t_quantity = p_quantity p,
                   t_pnl = pnl,
                   t_action = ''SELL''\<rparr>;
              e1 = e\<lparr>strategies := set_strategy_price (p_symbol p) (p_current_price p) (strategies e),
                     cash := cash e + pnl,
                     trade_counter := trade_counter e + 1,
                     trades := trades e @ [t]\<rparr>
          in if p \<in> set (positions e)
             then (Inr (Some t), e1\<lparr>positions := remove1 p (positions e)\<rparr>)
             else (Inl ValueError, e1))"

subsection \<open>The simulation loop\<close>

text \<open>The positions for which the exit check of the day holds.\<close>

definition positions_to_close :: "int \<Rightarrow> engine \<Rightarrow> position list" where
  "positions_to_close today e =
     filter (\<lambda>p. case find_strategy (p_symbol p) (strategies e) of
                   None \<Rightarrow> False
                 | Some s \<Rightarrow> should_exit_trade today e p s) (positions e)"

fun close_positions :: "position list \<Rightarrow> engine \<Rightarrow> py_error + engine" where
  "close_positions [] e = Inr e"
| "close_positions (p # ps) e =
     (case close_position p e of
        (Inl err, e') \<Rightarrow> Inl err
      | (Inr r, e') \<Rightarrow> close_positions ps e')"

text \<open>The body of the loop over the strategies that looks for new entries.\<close>

definition new_position :: "engine \<Rightarrow> strategy \<Rightarrow> int \<Rightarrow> position" where
  "new_position e s position_size =
     \<lparr>p_id = ''P'' @ format_04d (length (positions e) + 1),
      p_symbol = s_symbol s,
      p_strategy_type = class_name (s_legs s),
      p_entry_date = current_date e,
      p_entry_price = s_current_price s,
      p_quantity = position_size,
      p_current_price = s_current_price s,
      p_unrealized_pnl = 0\<rparr>"

definition enter_position :: "int \<Rightarrow> engine \<Rightarrow> strategy \<Rightarrow> py_error + engine" where
  "enter_position today e s =
     (case should_enter_trade today e s of
        Inl err \<Rightarrow> Inl err
      | Inr ok \<Rightarrow>
          if ok then
            (case find (\<lambda>p. p_symbol p = s_symbol s) (positions e) of
               Some existing_position \<Rightarrow> Inr e
             | None \<Rightarrow>
                 let position_size = calculate_position_size e s in
                 if position_size > 0
                 then Inr (e\<lparr>positions := positions e @ [new_position e s position_size]\<rparr>)
                 else Inr e)
          else Inr e)"

fun enter_positions :: "int \<Rightarrow> strategy list \<Rightarrow> engine \<Rightarrow> py_error + engine" where
  "enter_positions today [] e = Inr e"
| "enter_positions today (s # ss) e =
     (case enter_position today e s of
        Inl err \<Rightarrow> Inl err
      | Inr e' \<Rightarrow> enter_positions today ss e')"

text \<open>One iteration of \<^verbatim>\<open>for day in range(simulation_days)\<close>.\<close>

definition simulate_day :: "int \<Rightarrow> (nat \<Rightarrow> real) \<Rightarrow> int \<Rightarrow> engine \<Rightarrow> py_error + engine" where
  "simulate_day today nv day e =
     (let e1 = e\<lparr>current_date := today + day\<rparr>;
          e2 = update_positions nv e1
      in case close_positions (positions_to_close today e2) e2 of
           Inl err \<Rightarrow> Inl err
         | Inr e3 \<Rightarrow> enter_positions today (strategies e3) e3)"

text \<open>The iterations for \<open>day\<close>, \<open>day + 1\<close>, ..., \<open>day + n - 1\<close>.\<close>

fun run_days :: "int \<Rightarrow> (nat \<Rightarrow> real) \<Rightarrow> nat \<Rightarrow> nat \<Rightarrow> engine \<Rightarrow> py_error + engine" where
  "run_days today nv day 0 e = Inr e"
| "run_days today nv day (Suc n) e =
     (case simulate_day today nv (int day) e of
        Inl err \<Rightarrow> Inl err
      | Inr e' \<Rightarrow> run_days today nv (Suc day) n e')"

text \<open>The state reset at the start of a run.\<close>

definition reset_state :: "int \<Rightarrow> engine \<Rightarrow> engine" where
  "reset_state today e =
     e\<lparr>cash := initial_capital (config e), positions := [], trades := [], current_date := today\<rparr>"

text \<open>The results at the end of a run; the division by the initial capital raises on 0.\<close>

definition calculate_results :: "engine \<Rightarrow> py_error + simulation_result" where
  "calculate_results e =
     (let n_total = int (length (trades e));
          n_winning = int (length (filter (\<lambda>t. t_pnl t > 0) (trades e)));
          n_losing = n_total - n_winning;
          rate = (if n_total > 0 then real_of_int n_winning / real_of_int n_total * 100 else 0)
      in if initial_capital (config e) = 0 then Inl ZeroDivisionError
         else Inr \<lparr>final_value = cash e,
                   total_return = ((cash e - initial_capital (config e)) / initial_capital (config e)) * 100,
                   total_trades = n_total,
                   winning_trades = n_winning,
                   losing_trades = n_losing,
                   win_rate = rate,
                   result_trades = trades e\<rparr>)"

definition run_simulation :: "int \<Rightarrow> (nat \<Rightarrow> real) \<Rightarrow> engine \<Rightarrow> py_error + simulation_result \<times> engine" where
  "run_simulation today nv e =
     (case run_days today nv 0 (nat (simulation_days (config e))) (reset_state today e) of
        Inl err \<Rightarrow> Inl err
      | Inr e1 \<Rightarrow>
          (case close_positions (positions e1) e1 of
             Inl err \<Rightarrow> Inl err
           | Inr e2 \<Rightarrow>
               (case calculate_results e2 of
                  Inl err \<Rightarrow> Inl err
                | Inr r \<Rightarrow> Inr (r, e2))))"

section \<open>Preconditions on strategy parameters\<close>

text \<open>
  The constructors validate nothing. The bounds on the payoff need the strikes in their
  natural order; for the Butterfly also an upper wing no wider than the lower wing.
\<close>

fun ordered_strikes :: "legs \<Rightarrow> bool" where
  "ordered_strikes (IronCondor sc lc sp lp nc) = (lp \<le> sp \<and> sp \<le> sc \<and> sc \<le> lc)"
| "ordered_strikes (Straddle k cp pp) = True"
| "ordered_strikes (Strangle ck pk cp pp) = True"
| "ordered_strikes (CallSpread b s bp sp) = (b \<le> s)"
| "ordered_strikes (PutSpread b s bp sp) = (s \<le> b)"
| "ordered_strikes (Butterfly lo mi hi lp mp hp) = (lo \<le> mi \<and> mi \<le> hi \<and> hi - mi \<le> mi - lo)"

text \<open>
  The declared break-even prices lie on the sloped part of the payoff, where it crosses
  0, when the net credit or debit lies between 0 and the width of the spread it is
  measured against, the put strike of an Iron Condor or Strangle is not above its call
  strike, and the Butterfly is symmetric.
\<close>

fun premium_within_width :: "legs \<Rightarrow> bool" where
  "premium_within_width (IronCondor sc lc sp lp nc) =
     (0 \<le> nc \<and> nc \<le> lc - sc \<and> nc \<le> sp - lp \<and> sp \<le> sc)"
| "premium_within_width (Straddle k cp pp) = (0 \<le> cp + pp)"
| "premium_within_width (Strangle ck pk cp pp) = (0 \<le> cp + pp \<and> pk \<le> ck)"
| "premium_within_width (CallSpread b s bp sp) = (0 \<le> bp - sp \<and> bp - sp \<le> s - b)"
| "premium_within_width (PutSpread b s bp sp) = (0 \<le> bp - sp \<and> bp - sp \<le> b - s)"
| "premium_within_width (Butterfly lo mi hi lp mp hp) =
     (0 \<le> lp - (2 * mp) + hp \<and> lp - (2 * mp) + hp \<le> mi - lo \<and> hi - mi = mi - lo)"

section \<open>Example inputs\<close>

text \<open>
  The strategies of the repository's smoke test (an Iron Condor on AAPL, a Straddle on
  TSLA), the default configuration, and engines built from them. Day 0 is today.
\<close>

definition example_condor :: strategy where
  "example_condor = \<lparr>s_symbol = ''AAPL'', s_current_price = 150, s_expiration = 30,
     s_entry_date = 0, s_legs = IronCondor 155 160 145 140 2.5\<rparr>"

definition example_straddle :: strategy where
  "example_straddle = \<lparr>s_symbol = ''TSLA'', s_current_price = 200, s_expiration = 21,
     s_entry_date = 0, s_legs = Straddle 200 15 12\<rparr>"

definition example_config :: simulation_config where
  "example_config = \<lparr>initial_capital = 10000, risk_per_trade = 0.02,
     max_concurrent_trades = 5, simulation_days = 30\<rparr>"

definition example_position :: position where
  "example_position = \<lparr>p_id = ''P0001'', p_symbol = ''AAPL'', p_strategy_type = ''IronCondor'',
     p_entry_date = 0, p_entry_price = 150, p_quantity = 10, p_current_price = 158,
     p_unrealized_pnl = - 5\<rparr>"

text \<open>A position whose symbol no strategy of the example engines has.\<close>

definition orphan_position :: position where
  "orphan_position = \<lparr>p_id = ''P0002'', p_symbol = ''MSFT'', p_strategy_type = ''Straddle'',
     p_entry_date = 0, p_entry_price = 300, p_quantity = 2, p_current_price = 310,
     p_unrealized_pnl = 4\<rparr>"

text \<open>An engine on simulated day 3 that holds one open position.\<close>

definition example_engine :: engine where
  "example_engine = \<lparr>cash = 10000, positions = [example_position], trades = [],
     strategies = [example_condor, example_straddle], config = example_config,
     current_date = 3, trade_counter = 0, draws = 0\<rparr>"

text \<open>The same strategies before any position is open.\<close>

definition fresh_engine :: engine where
  "fresh_engine = \<lparr>cash = 10000, positions = [], trades = [],
     strategies = [example_condor, example_straddle], config = example_config,
     current_date = 0, trade_counter = 0, draws = 0\<rparr>"

text \<open>An engine whose cash balance has gone negative.\<close>

definition indebted_engine :: engine where
  "indebted_engine = \<lparr>cash = - 1010, positions = [], trades = [],
     strategies = [example_condor], config = example_config,
     current_date = 0, trade_counter = 0, draws = 0\<rparr>"

text \<open>An engine configured with an initial capital of 0.\<close>

definition zero_capital_engine :: engine where
  "zero_capital_engine = \<lparr>cash = 10000, positions = [], trades = [],
     strategies = [example_condor, example_straddle],
     config = \<lparr>initial_capital = 0, risk_per_trade = 0.02,
                max_concurrent_trades = 5, simulation_days = 30\<rparr>,
     current_date = 0, trade_counter = 0, draws = 0\<rparr>"

text \<open>Strategies that expire in 100 days, and a price process that never moves.\<close>

definition no_drift :: "nat \<Rightarrow> real" where
  "no_drift k = 0"

definition far_straddle :: strategy where
  "far_straddle = \<lparr>s_symbol = ''TSLA'', s_current_price = 200, s_expiration = 100,
     s_entry_date = 0, s_legs = Straddle 200 15 12\<rparr>"

definition far_call_spread :: strategy where
  "far_call_spread = \<lparr>s_symbol = ''MSFT'', s_current_price = 100, s_expiration = 100,
     s_entry_date = 0, s_legs = CallSpread 100 110 5 2\<rparr>"

text \<open>An engine whose first strategy is a Straddle and whose second is a Call Spread.\<close>

definition debit_engine :: engine where
  "debit_engine = \<lparr>cash = 10000, positions = [], trades = [],
     strategies = [far_straddle, far_call_spread], config = example_config,
     current_date = 0, trade_counter = 0, draws = 0\<rparr>"

definition spread_engine :: engine where
  "spread_engine = \<lparr>cash = 10000, positions = [], trades = [],
     strategies = [far_call_spread],
     config = \<lparr>initial_capital = 10000, risk_per_trade = 0.02,
                max_concurrent_trades = 5, simulation_days = 2\<rparr>,
     current_date = 0, trade_counter = 0, draws = 0\<rparr>"

text \<open>The two positions that \<open>spread_engine\<close> opens on day 0 and on day 1.\<close>

definition first_spread_position :: position where
  "first_spread_position = \<lparr>p_id = ''P0001'', p_symbol = ''MSFT'',
     p_strategy_type = ''CallSpread'', p_entry_date = 0, p_entry_price = 100,
     p_quantity = 10, p_current_price = 100, p_unrealized_pnl = 0\<rparr>"

definition second_spread_position :: position where
  "second_spread_position = \<lparr>p_id = ''P0001'', p_symbol = ''MSFT'',
     p_strategy_type = ''CallSpread'', p_entry_date = 1, p_entry_price = 100,
     p_quantity = 10, p_current_price = 100, p_unrealized_pnl = 0\<rparr>"

definition first_spread_trade :: trade where
  "first_spread_trade = \<lparr>t_id = ''T0000'', t_symbol = ''MSFT'',
     t_strategy_type = ''CallSpread'', t_entry_date = 0, t_exit_date = 1,
     t_entry_price = 100, t_exit_price = 100, t_quantity = 10, t_pnl = - 30,
     t_action = ''SELL''\<rparr>"

definition second_spread_trade :: trade where
  "second_spread_trade = \<lparr>t_id = ''T0001'', t_symbol = ''MSFT'',
     t_strategy_type = ''CallSpread'', t_entry_date = 1, t_exit_date = 1,
     t_entry_price = 100, t_exit_price = 100, t_quantity = 10, t_pnl = - 30,
     t_action = ''SELL''\<rparr>"

text \<open>
  A Call Spread that expires on day 4, in a run of four days in which the price rises
  by 3.2 percent on day 1 and stays there; the position that is open after the fourth
  iteration (day 3), and the engine at that moment.
\<close>

definition rally :: "nat \<Rightarrow> real" where
  "rally k = (if k = 0 then 0.032 else 0)"

definition short_spread :: strategy where
  "short_spread = \<lparr>s_symbol = ''MSFT'', s_current_price = 100, s_expiration = 4,
     s_entry_date = 0, s_legs = CallSpread 100 110 5 2\<rparr>"

definition short_engine :: engine where
  "short_engine = \<lparr>cash = 10000, positions = [], trades = [],
     strategies = [short_spread],
     config = \<lparr>initial_capital = 10000, risk_per_trade = 0.02,
                max_concurrent_trades = 5, simulation_days = 4\<rparr>,
     current_date = 0, trade_counter = 0, draws = 0\<rparr>"

definition reentered_position :: position where
  "reentered_position = \<lparr>p_id = ''P0001'', p_symbol = ''MSFT'',
     p_strategy_type = ''CallSpread'', p_entry_date = 2, p_entry_price = 103.2,
     p_quantity = 10, p_current_price = 103.2, p_unrealized_pnl = 2\<rparr>"

definition short_engine_day_3 :: engine where
  "short_engine_day_3 = \<lparr>cash = 10002, positions = [reentered_position],
     trades = [\<lparr>t_id = ''T0000'', t_symbol = ''MSFT'', t_strategy_type = ''CallSpread'',
                t_entry_date = 0, t_exit_date = 2, t_entry_price = 100,
                t_exit_price = 103.2, t_quantity = 10, t_pnl = 2, t_action = ''SELL''\<rparr>],
     strategies = [short_spread\<lparr>s_current_price := 103.2\<rparr>],
     config = config short_engine,
     current_date = 3, trade_counter = 1, draws = 3\<rparr>"

section \<open>Auxiliary facts\<close>

lemmas example_defs = example_condor_def example_straddle_def example_config_def
  example_position_def orphan_position_def example_engine_def fresh_engine_def
  indebted_engine_def zero_capital_engine_def no_drift_def far_straddle_def
  far_call_spread_def debit_engine_def spread_engine_def first_spread_position_def
  second_spread_position_def first_spread_trade_def second_spread_trade_def rally_def
  short_spread_def short_engine_def reentered_position_def short_engine_day_3_def

lemmas engine_defs = calculate_position_size_def should_enter_trade_def should_exit_trade_def
  simulate_price_movement_def update_positions_def close_position_def positions_to_close_def
  new_position_def enter_position_def simulate_day_def reset_state_def calculate_results_def
  run_simulation_def find_strategy_def days_to_expiration_def is_expired_def py_int_def Let_def

lemma format_04d_0: "format_04d 0 = ''0000''"
  by (simp add: format_04d_def decimal.simps digit_char_def eval_nat_numeral)

lemma format_04d_1: "format_04d (Suc 0) = ''0001''"
  by (simp add: format_04d_def decimal.simps digit_char_def eval_nat_numeral)

subsection \<open>Payoff bounds\<close>

lemma payoff_lower_bound:
  "ordered_strikes l \<Longrightarrow> - get_max_loss l \<le> calculate_payoff l x"
  by (cases l) (auto simp: Let_def min_def max_def)

lemma payoff_upper_bound:
  "ordered_strikes l \<Longrightarrow> get_max_profit l = Fin m \<Longrightarrow> calculate_payoff l x \<le> m"
  by (cases l) (auto simp: Let_def min_def max_def)

subsection \<open>The rounding of a double\<close>

lemma log2_floor_le: "0 < n \<Longrightarrow> 2 ^ log2_floor n \<le> n"
proof (induction n rule: log2_floor.induct)
  case (1 n)
  show ?case
  proof (cases "n < 2")
    case True
    with "1.prems" show ?thesis by (simp add: log2_floor.simps)
  next
    case False
    then have "0 < n div 2" by simp
    with "1.IH" False have "2 ^ log2_floor (n div 2) \<le> n div 2" by simp
    then have "2 * 2 ^ log2_floor (n div 2) \<le> n" by simp
    with False show ?thesis by (simp add: log2_floor.simps [of n])
  qed
qed

lemma log2_floor_gt: "n < 2 ^ Suc (log2_floor n)"
proof (induction n rule: log2_floor.induct)
  case (1 n)
  show ?case
  proof (cases "n < 2")
    case True
    then show ?thesis by (simp add: log2_floor.simps)
  next
    case False
    with "1.IH" have "n div 2 < 2 ^ Suc (log2_floor (n div 2))" by simp
    then have "n < 2 * 2 ^ Suc (log2_floor (n div 2))" by simp
    with False show ?thesis by (simp add: log2_floor.simps [of n])
  qed
qed

lemma pow2_pos: "0 < pow2 k"
  by (simp add: pow2_def)

lemma pow2_powr: "pow2 k = 2 powr real_of_int k"
  by (simp add: pow2_def powr_real_of_int field_simps)

lemma pow2_diff: "pow2 (k - 52) = pow2 k / 2 ^ 52"
proof -
  have "pow2 (k - 52) = 2 powr (real_of_int k - 52)" by (simp add: pow2_powr)
  also have "\<dots> = 2 powr real_of_int k / 2 powr 52" by (simp add: powr_diff)
  also have "(2::real) powr 52 = 2 ^ 52" by (simp add: powr_numeral)
  finally show ?thesis by (simp add: pow2_powr)
qed

lemma pow2_exponent_le:
  assumes "x \<noteq> 0"
  shows "pow2 (exponent x) \<le> \<bar>x\<bar>"
proof (cases "1 \<le> \<bar>x\<bar>")
  case True
  let ?n = "nat \<lfloor>\<bar>x\<bar>\<rfloor>"
  have "0 < ?n" using True by simp
  then have "2 ^ log2_floor ?n \<le> ?n" by (rule log2_floor_le)
  then have "(2::real) ^ log2_floor ?n \<le> real ?n"
    by (metis of_nat_le_iff of_nat_numeral of_nat_power)
  also have "real ?n \<le> \<bar>x\<bar>" using True by simp
  finally show ?thesis using True by (simp add: exponent_def pow2_def)
next
  case False
  let ?c = "\<lceil>1 / \<bar>x\<bar>\<rceil>"
  let ?n = "nat (?c - 1)"
  have x: "0 < \<bar>x\<bar>" "\<bar>x\<bar> < 1" using assms False by simp_all
  have "?n < 2 ^ Suc (log2_floor ?n)" by (rule log2_floor_gt)
  then have "int ?n < 2 ^ Suc (log2_floor ?n)"
    by (metis of_nat_less_iff of_nat_numeral of_nat_power)
  then have "?c \<le> 2 ^ Suc (log2_floor ?n)" by linarith
  then have "real_of_int ?c \<le> 2 ^ Suc (log2_floor ?n)"
    by (metis of_int_le_iff of_int_numeral of_int_power)
  moreover have "1 / \<bar>x\<bar> \<le> real_of_int ?c" by (rule le_of_int_ceiling)
  ultimately have "1 / \<bar>x\<bar> \<le> 2 ^ Suc (log2_floor ?n)" by linarith
  then have "1 / 2 ^ Suc (log2_floor ?n) \<le> \<bar>x\<bar>"
    using x by (simp add: field_simps)
  moreover have "nat (int (log2_floor ?n) + 1) = Suc (log2_floor ?n)" by simp
  ultimately show ?thesis using False by (simp add: exponent_def pow2_def del: power_Suc)
qed

lemma round_half_even_error: "\<bar>real_of_int (round_half_even y) - y\<bar> \<le> 1 / 2"
  unfolding round_half_even_def Let_def by (auto split: if_splits; linarith)

lemma round_double_error: "\<bar>round_double x - x\<bar> \<le> \<bar>x\<bar> / 2 ^ 53"
proof (cases "x = 0")
  case True
  then show ?thesis by (simp add: round_double_def)
next
  case False
  define ulp where "ulp = pow2 (exponent x - 52)"
  have ulp: "0 < ulp" by (simp add: ulp_def pow2_pos)
  have "ulp = pow2 (exponent x) / 2 ^ 52" by (simp add: ulp_def pow2_diff)
  also have "\<dots> \<le> \<bar>x\<bar> / 2 ^ 52"
    using pow2_exponent_le [OF False] by (simp add: divide_right_mono)
  finally have le: "ulp \<le> \<bar>x\<bar> / 2 ^ 52" .
  have "round_double x - x = ulp * (real_of_int (round_half_even (x / ulp)) - x / ulp)"
    using False ulp by (simp add: round_double_def ulp_def Let_def algebra_simps)
  then have "\<bar>round_double x - x\<bar> = ulp * \<bar>real_of_int (round_half_even (x / ulp)) - x / ulp\<bar>"
    using ulp by (simp add: abs_mult)
  also have "\<dots> \<le> ulp * (1 / 2)"
    using ulp round_half_even_error [of "x / ulp"] by (intro mult_left_mono) simp_all
  also have "\<dots> \<le> (\<bar>x\<bar> / 2 ^ 52) * (1 / 2)"
    using le by simp
  finally show ?thesis by simp
qed

lemmas double_defs = round_double_def exponent_def pow2_def round_half_even_def
  log2_floor.simps Let_def

lemma round_double_unit: "\<bar>round_double x - x\<bar> \<le> \<bar>x\<bar> / 9007199254740992"
  using round_double_error [of x] by simp

subsection \<open>Rounded payoffs at the declared break-even prices\<close>

text \<open>
  One lemma per variant and break-even price, for any rounding \<open>rnd\<close> whose relative
  error is at most \<open>2 ^ - 53\<close>; \<open>M\<close> bounds the magnitudes and \<open>e\<close> is \<open>M / 2 ^ 53\<close>.
\<close>

lemma calculate_payoff_exact: "calculate_payoff_rnd (\<lambda>x. x) l x = calculate_payoff l x"
  by (cases l) (simp_all add: Let_def)


lemma rnd_err1:
  fixes r :: real
  assumes "\<bar>r - y\<bar> \<le> \<bar>y\<bar> / 9007199254740992" "\<bar>y\<bar> \<le> M" "M = e * 9007199254740992"
  shows "\<bar>r - y\<bar> \<le> e"
proof -
  have "\<bar>y\<bar> / 9007199254740992 \<le> M / 9007199254740992"
    using assms(2) by (simp add: divide_right_mono)
  also have "M / 9007199254740992 = e" using assms(3) by simp
  finally show ?thesis using assms(1) by linarith
qed

lemma rnd_err:
  fixes r :: real
  assumes "\<bar>r - y\<bar> \<le> \<bar>y\<bar> / 9007199254740992" "\<bar>y\<bar> \<le> k * M" "M = e * 9007199254740992"
  shows "\<bar>r - y\<bar> \<le> k * e"
proof -
  have "\<bar>y\<bar> / 9007199254740992 \<le> (k * M) / 9007199254740992"
    using assms(2) by (simp add: divide_right_mono)
  also have "(k * M) / 9007199254740992 = k * e" using assms(3) by simp
  finally show ?thesis using assms(1) by linarith
qed

lemma rnd_tiny:
  fixes r :: real
  assumes "\<bar>r - y\<bar> \<le> \<bar>y\<bar> / 9007199254740992" "\<bar>y\<bar> \<le> j * e" "0 \<le> e"
    "j \<le> 9007199254740992"
  shows "\<bar>r - y\<bar> \<le> e"
proof -
  have "j * e \<le> 9007199254740992 * e" using assms(4,3) by (rule mult_right_mono)
  with assms(2) have "\<bar>y\<bar> \<le> 9007199254740992 * e" by linarith
  then have "\<bar>y\<bar> / 9007199254740992 \<le> (9007199254740992 * e) / 9007199254740992"
    by (simp only: divide_right_mono zero_le_numeral)
  also have "(9007199254740992 * e) / 9007199254740992 = e" by simp
  finally show ?thesis using assms(1) by linarith
qed

lemma rnd_err2:
  fixes r :: real
  assumes h: "\<bar>r - y\<bar> \<le> \<bar>y\<bar> / 9007199254740992" and y: "\<bar>y\<bar> \<le> k * M + j * e"
    and e: "M = e * 9007199254740992" "0 \<le> e" and j: "j \<le> 9007199254740992"
  shows "\<bar>r - y\<bar> \<le> k * e + e"
proof -
  have "j * e \<le> 9007199254740992 * e" using j e(2) by (rule mult_right_mono)
  with y have "\<bar>y\<bar> \<le> k * M + 9007199254740992 * e" by linarith
  then have "\<bar>y\<bar> / 9007199254740992 \<le> (k * M + 9007199254740992 * e) / 9007199254740992"
    by (simp only: divide_right_mono zero_le_numeral)
  also have "(k * M + 9007199254740992 * e) / 9007199254740992 = k * e + e"
    using e(1) by (simp add: add_divide_distrib)
  finally show ?thesis using h by linarith
qed

lemma rnd_nonneg:
  fixes r :: real
  assumes "\<bar>r - y\<bar> \<le> \<bar>y\<bar> / 9007199254740992" "0 \<le> y"
  shows "0 \<le> r"
proof -
  have "y / 9007199254740992 \<le> y" using assms(2) by simp
  with assms show ?thesis by linarith
qed

lemma rnd_nonpos:
  fixes r :: real
  assumes "\<bar>r - y\<bar> \<le> \<bar>y\<bar> / 9007199254740992" "y \<le> 0"
  shows "r \<le> 0"
proof -
  have "- y / 9007199254740992 \<le> - y" using assms(2) by simp
  with assms show ?thesis by linarith
qed

lemma condor_upper:
  fixes rnd :: "real \<Rightarrow> real"
  assumes R: "\<And>x. \<bar>rnd x - x\<bar> \<le> \<bar>x\<bar> / 9007199254740992"
    and pre: "0 \<le> nc" "nc \<le> lc - sc" "nc \<le> sp - lp" "sp \<le> sc"
    and e: "0 \<le> e" "M = e * 9007199254740992" "e \<le> M"
    and m: "\<bar>sc + nc\<bar> \<le> M" "\<bar>lc - sc\<bar> \<le> M" "\<bar>nc\<bar> \<le> M"
    and b: "b = rnd (sc + nc)"
  shows "\<bar>calculate_payoff_rnd rnd (IronCondor sc lc sp lp nc) b\<bar> \<le> 32 * e"
proof -
  define a where "a = rnd (b - sc)"
  define c1 where "c1 = rnd (lc - sc)"
  define d where "d = rnd (sp - b)"
  define c2 where "c2 = rnd (sp - lp)"
  define call where "call = (if b > sc then min a c1 else 0)"
  define put where "put = (if b < sp then min d c2 else 0)"
  define t where "t = rnd (call + put)"
  define r where "r = rnd (nc - t)"
  have h1: "\<bar>b - (sc + nc)\<bar> \<le> \<bar>sc + nc\<bar> / 9007199254740992" unfolding b by (rule R)
  have h2: "\<bar>a - (b - sc)\<bar> \<le> \<bar>b - sc\<bar> / 9007199254740992" unfolding a_def by (rule R)
  have h3: "\<bar>c1 - (lc - sc)\<bar> \<le> \<bar>lc - sc\<bar> / 9007199254740992" unfolding c1_def by (rule R)
  have h4: "\<bar>d - (sp - b)\<bar> \<le> \<bar>sp - b\<bar> / 9007199254740992" unfolding d_def by (rule R)
  have h5: "\<bar>c2 - (sp - lp)\<bar> \<le> \<bar>sp - lp\<bar> / 9007199254740992" unfolding c2_def by (rule R)
  have h6: "\<bar>t - (call + put)\<bar> \<le> \<bar>call + put\<bar> / 9007199254740992" unfolding t_def by (rule R)
  have h7: "\<bar>r - (nc - t)\<bar> \<le> \<bar>nc - t\<bar> / 9007199254740992" unfolding r_def by (rule R)
  have s1: "\<bar>b - (sc + nc)\<bar> \<le> e" by (rule rnd_err1 [OF h1 m(1) e(2)])
  have "\<bar>b - sc\<bar> \<le> 2 * M" using s1 m(3) e(3) by linarith
  then have "\<bar>a - (b - sc)\<bar> \<le> 2 * e" by (rule rnd_err [OF h2 _ e(2)])
  with s1 have s2: "\<bar>a - nc\<bar> \<le> 3 * e" by linarith
  have "\<bar>c1 - (lc - sc)\<bar> \<le> e" by (rule rnd_err1 [OF h3 m(2) e(2)])
  with pre(2) have s3: "nc - e \<le> c1" by linarith
  have s4: "\<bar>call - nc\<bar> \<le> 3 * e"
  proof (cases "b > sc")
    case True
    then show ?thesis unfolding call_def using s2 s3 e(1) by (simp; linarith)
  next
    case False
    then have "nc \<le> e" using s1 by linarith
    with False pre(1) e(1) show ?thesis unfolding call_def by simp
  qed
  have s5: "sp - b \<le> e" using s1 pre(1,4) by linarith
  have c2: "0 \<le> c2" using h5 by (rule rnd_nonneg) (use pre(1,3) in linarith)
  have s6: "0 \<le> put \<and> put \<le> 2 * e"
  proof (cases "b < sp")
    case True
    then have y: "0 \<le> sp - b" "\<bar>sp - b\<bar> \<le> 1 * e" using s5 by linarith+
    have "0 \<le> d" using h4 y(1) by (rule rnd_nonneg)
    moreover have "\<bar>d - (sp - b)\<bar> \<le> e" by (rule rnd_tiny [OF h4 y(2) e(1)]) simp
    ultimately show ?thesis unfolding put_def using True c2 y by (simp; linarith)
  next
    case False
    then show ?thesis unfolding put_def using e(1) by simp
  qed
  have "\<bar>call + put\<bar> \<le> 6 * M" using s4 s6 m(3) e(3) by linarith
  then have "\<bar>t - (call + put)\<bar> \<le> 6 * e" by (rule rnd_err [OF h6 _ e(2)])
  with s4 s6 have s7: "\<bar>nc - t\<bar> \<le> 11 * e" by linarith
  have "\<bar>r - (nc - t)\<bar> \<le> e" by (rule rnd_tiny [OF h7 s7 e(1)]) simp
  with s7 have "\<bar>r\<bar> \<le> 32 * e" using e(1) by linarith
  moreover have "calculate_payoff_rnd rnd (IronCondor sc lc sp lp nc) b = r"
    by (simp add: r_def t_def call_def put_def a_def c1_def d_def c2_def)
  ultimately show ?thesis by simp
qed


lemma condor_lower:
  fixes rnd :: "real \<Rightarrow> real"
  assumes R: "\<And>x. \<bar>rnd x - x\<bar> \<le> \<bar>x\<bar> / 9007199254740992"
    and pre: "0 \<le> nc" "nc \<le> lc - sc" "nc \<le> sp - lp" "sp \<le> sc"
    and e: "0 \<le> e" "M = e * 9007199254740992" "e \<le> M"
    and m: "\<bar>sp - nc\<bar> \<le> M" "\<bar>sp - lp\<bar> \<le> M" "\<bar>nc\<bar> \<le> M"
    and b: "b = rnd (sp - nc)"
  shows "\<bar>calculate_payoff_rnd rnd (IronCondor sc lc sp lp nc) b\<bar> \<le> 32 * e"
proof -
  define a where "a = rnd (b - sc)"
  define c1 where "c1 = rnd (lc - sc)"
  define d where "d = rnd (sp - b)"
  define c2 where "c2 = rnd (sp - lp)"
  define call where "call = (if b > sc then min a c1 else 0)"
  define put where "put = (if b < sp then min d c2 else 0)"
  define t where "t = rnd (call + put)"
  define r where "r = rnd (nc - t)"
  have h1: "\<bar>b - (sp - nc)\<bar> \<le> \<bar>sp - nc\<bar> / 9007199254740992" unfolding b by (rule R)
  have h2: "\<bar>a - (b - sc)\<bar> \<le> \<bar>b - sc\<bar> / 9007199254740992" unfolding a_def by (rule R)
  have h3: "\<bar>c1 - (lc - sc)\<bar> \<le> \<bar>lc - sc\<bar> / 9007199254740992" unfolding c1_def by (rule R)
  have h4: "\<bar>d - (sp - b)\<bar> \<le> \<bar>sp - b\<bar> / 9007199254740992" unfolding d_def by (rule R)
  have h5: "\<bar>c2 - (sp - lp)\<bar> \<le> \<bar>sp - lp\<bar> / 9007199254740992" unfolding c2_def by (rule R)
  have h6: "\<bar>t - (call + put)\<bar> \<le> \<bar>call + put\<bar> / 9007199254740992" unfolding t_def by (rule R)
  have h7: "\<bar>r - (nc - t)\<bar> \<le> \<bar>nc - t\<bar> / 9007199254740992" unfolding r_def by (rule R)
  have s1: "\<bar>b - (sp - nc)\<bar> \<le> e" by (rule rnd_err1 [OF h1 m(1) e(2)])
  have "\<bar>sp - b\<bar> \<le> 2 * M" using s1 m(3) e(3) by linarith
  then have "\<bar>d - (sp - b)\<bar> \<le> 2 * e" by (rule rnd_err [OF h4 _ e(2)])
  with s1 have s2: "\<bar>d - nc\<bar> \<le> 3 * e" by linarith
  have "\<bar>c2 - (sp - lp)\<bar> \<le> e" by (rule rnd_err1 [OF h5 m(2) e(2)])
  with pre(3) have s3: "nc - e \<le> c2" by linarith
  have s4: "\<bar>put - nc\<bar> \<le> 3 * e"
  proof (cases "b < sp")
    case True
    then show ?thesis unfolding put_def using s2 s3 e(1) by (simp; linarith)
  next
    case False
    then have "nc \<le> e" using s1 by linarith
    with False pre(1) e(1) show ?thesis unfolding put_def by simp
  qed
  have s5: "b - sc \<le> e" using s1 pre(1,4) by linarith
  have c1: "0 \<le> c1" using h3 by (rule rnd_nonneg) (use pre(1,2) in linarith)
  have s6: "0 \<le> call \<and> call \<le> 2 * e"
  proof (cases "b > sc")
    case True
    then have y: "0 \<le> b - sc" "\<bar>b - sc\<bar> \<le> 1 * e" using s5 by linarith+
    have "0 \<le> a" using h2 y(1) by (rule rnd_nonneg)
    moreover have "\<bar>a - (b - sc)\<bar> \<le> e" by (rule rnd_tiny [OF h2 y(2) e(1)]) simp
    ultimately show ?thesis unfolding call_def using True c1 y by (simp; linarith)
  next
    case False
    then show ?thesis unfolding call_def using e(1) by simp
  qed
  have "\<bar>call + put\<bar> \<le> 6 * M" using s4 s6 m(3) e(3) by linarith
  then have "\<bar>t - (call + put)\<bar> \<le> 6 * e" by (rule rnd_err [OF h6 _ e(2)])
  with s4 s6 have s7: "\<bar>nc - t\<bar> \<le> 11 * e" by linarith
  have "\<bar>r - (nc - t)\<bar> \<le> e" by (rule rnd_tiny [OF h7 s7 e(1)]) simp
  with s7 have "\<bar>r\<bar> \<le> 32 * e" using e(1) by linarith
  moreover have "calculate_payoff_rnd rnd (IronCondor sc lc sp lp nc) b = r"
    by (simp add: r_def t_def call_def put_def a_def c1_def d_def c2_def)
  ultimately show ?thesis by simp
qed

lemma strangle_upper:
  fixes rnd :: "real \<Rightarrow> real"
  assumes R: "\<And>x. \<bar>rnd x - x\<bar> \<le> \<bar>x\<bar> / 9007199254740992"
    and pre: "0 \<le> cp + pp" "pk \<le> ck"
    and e: "0 \<le> e" "M = e * 9007199254740992" "e \<le> M"
    and m: "\<bar>cp + pp\<bar> \<le> M" "\<bar>ck\<bar> + \<bar>cp + pp\<bar> \<le> M" "\<bar>pp\<bar> \<le> M"
    and tc: "tc = rnd (cp + pp)" and b: "b = rnd (ck + tc)"
  shows "\<bar>calculate_payoff_rnd rnd (Strangle ck pk cp pp) b\<bar> \<le> 32 * e"
proof -
  define v1 where "v1 = rnd (b - ck)"
  define call where "call = rnd (max 0 v1 - cp)"
  define v2 where "v2 = rnd (pk - b)"
  define put where "put = rnd (max 0 v2 - pp)"
  define r where "r = rnd (call + put)"
  have h1: "\<bar>tc - (cp + pp)\<bar> \<le> \<bar>cp + pp\<bar> / 9007199254740992" unfolding tc by (rule R)
  have h2: "\<bar>b - (ck + tc)\<bar> \<le> \<bar>ck + tc\<bar> / 9007199254740992" unfolding b by (rule R)
  have h3: "\<bar>v1 - (b - ck)\<bar> \<le> \<bar>b - ck\<bar> / 9007199254740992" unfolding v1_def by (rule R)
  have h4: "\<bar>call - (max 0 v1 - cp)\<bar> \<le> \<bar>max 0 v1 - cp\<bar> / 9007199254740992"
    unfolding call_def by (rule R)
  have h5: "\<bar>v2 - (pk - b)\<bar> \<le> \<bar>pk - b\<bar> / 9007199254740992" unfolding v2_def by (rule R)
  have h6: "\<bar>put - (max 0 v2 - pp)\<bar> \<le> \<bar>max 0 v2 - pp\<bar> / 9007199254740992"
    unfolding put_def by (rule R)
  have h7: "\<bar>r - (call + put)\<bar> \<le> \<bar>call + put\<bar> / 9007199254740992" unfolding r_def by (rule R)
  have s1: "\<bar>tc - (cp + pp)\<bar> \<le> e" by (rule rnd_err1 [OF h1 m(1) e(2)])
  have s1': "0 \<le> tc" using h1 pre(1) by (rule rnd_nonneg)
  have "\<bar>ck + tc\<bar> \<le> 2 * M" using s1 m(2) e(3) by linarith
  then have s2: "\<bar>b - (ck + tc)\<bar> \<le> 2 * e" by (rule rnd_err [OF h2 _ e(2)])
  have a3: "\<bar>b - ck - (cp + pp)\<bar> \<le> 3 * e" using s1 s2 by linarith
  then have "\<bar>b - ck\<bar> \<le> 4 * M" using m(1) e(3) by linarith
  then have "\<bar>v1 - (b - ck)\<bar> \<le> 4 * e" by (rule rnd_err [OF h3 _ e(2)])
  with a3 have "\<bar>v1 - (cp + pp)\<bar> \<le> 7 * e" by linarith
  with pre(1) have s3: "\<bar>max 0 v1 - (cp + pp)\<bar> \<le> 7 * e" by linarith
  then have "\<bar>max 0 v1 - cp\<bar> \<le> 8 * M" using m(3) e(3) by linarith
  then have "\<bar>call - (max 0 v1 - cp)\<bar> \<le> 8 * e" by (rule rnd_err [OF h4 _ e(2)])
  with s3 have s4: "\<bar>call - pp\<bar> \<le> 15 * e" by linarith
  have y: "pk - b \<le> 2 * e" using s1' s2 pre(2) by linarith
  have s5: "0 \<le> max 0 v2 \<and> max 0 v2 \<le> 3 * e"
  proof (cases "pk - b \<le> 0")
    case True
    with h5 have "v2 \<le> 0" by (rule rnd_nonpos)
    then show ?thesis using e(1) by simp
  next
    case False
    with y have "\<bar>pk - b\<bar> \<le> 2 * e" by linarith
    then have "\<bar>v2 - (pk - b)\<bar> \<le> e" by (rule rnd_tiny [OF h5 _ e(1)]) simp
    with y e(1) show ?thesis by linarith
  qed
  then have "\<bar>max 0 v2 - pp\<bar> \<le> 4 * M" using m(3) e(3) by linarith
  then have "\<bar>put - (max 0 v2 - pp)\<bar> \<le> 4 * e" by (rule rnd_err [OF h6 _ e(2)])
  with s5 have s6: "\<bar>put + pp\<bar> \<le> 7 * e" by linarith
  with s4 have s7: "\<bar>call + put\<bar> \<le> 22 * e" by linarith
  have "\<bar>r - (call + put)\<bar> \<le> e" by (rule rnd_tiny [OF h7 s7 e(1)]) simp
  with s7 have "\<bar>r\<bar> \<le> 32 * e" using e(1) by linarith
  moreover have "calculate_payoff_rnd rnd (Strangle ck pk cp pp) b = r"
    by (simp add: r_def call_def put_def v1_def v2_def)
  ultimately show ?thesis by simp
qed

lemma strangle_lower:
  fixes rnd :: "real \<Rightarrow> real"
  assumes R: "\<And>x. \<bar>rnd x - x\<bar> \<le> \<bar>x\<bar> / 9007199254740992"
    and pre: "0 \<le> cp + pp" "pk \<le> ck"
    and e: "0 \<le> e" "M = e * 9007199254740992" "e \<le> M"
    and m: "\<bar>cp + pp\<bar> \<le> M" "\<bar>pk\<bar> + \<bar>cp + pp\<bar> \<le> M" "\<bar>cp\<bar> \<le> M"
    and tc: "tc = rnd (cp + pp)" and b: "b = rnd (pk - tc)"
  shows "\<bar>calculate_payoff_rnd rnd (Strangle ck pk cp pp) b\<bar> \<le> 32 * e"
proof -
  define v1 where "v1 = rnd (b - ck)"
  define call where "call = rnd (max 0 v1 - cp)"
  define v2 where "v2 = rnd (pk - b)"
  define put where "put = rnd (max 0 v2 - pp)"
  define r where "r = rnd (call + put)"
  have h1: "\<bar>tc - (cp + pp)\<bar> \<le> \<bar>cp + pp\<bar> / 9007199254740992" unfolding tc by (rule R)
  have h2: "\<bar>b - (pk - tc)\<bar> \<le> \<bar>pk - tc\<bar> / 9007199254740992" unfolding b by (rule R)
  have h3: "\<bar>v1 - (b - ck)\<bar> \<le> \<bar>b - ck\<bar> / 9007199254740992" unfolding v1_def by (rule R)
  have h4: "\<bar>call - (max 0 v1 - cp)\<bar> \<le> \<bar>max 0 v1 - cp\<bar> / 9007199254740992"
    unfolding call_def by (rule R)
  have h5: "\<bar>v2 - (pk - b)\<bar> \<le> \<bar>pk - b\<bar> / 9007199254740992" unfolding v2_def by (rule R)
  have h6: "\<bar>put - (max 0 v2 - pp)\<bar> \<le> \<bar>max 0 v2 - pp\<bar> / 9007199254740992"
    unfolding put_def by (rule R)
  have h7: "\<bar>r - (call + put)\<bar> \<le> \<bar>call + put\<bar> / 9007199254740992" unfolding r_def by (rule R)
  have s1: "\<bar>tc - (cp + pp)\<bar> \<le> e" by (rule rnd_err1 [OF h1 m(1) e(2)])
  have s1': "0 \<le> tc" using h1 pre(1) by (rule rnd_nonneg)
  have "\<bar>pk - tc\<bar> \<le> 2 * M" using s1 m(2) e(3) by linarith
  then have s2: "\<bar>b - (pk - tc)\<bar> \<le> 2 * e" by (rule rnd_err [OF h2 _ e(2)])
  have a3: "\<bar>pk - b - (cp + pp)\<bar> \<le> 3 * e" using s1 s2 by linarith
  then have "\<bar>pk - b\<bar> \<le> 4 * M" using m(1) e(3) by linarith
  then have "\<bar>v2 - (pk - b)\<bar> \<le> 4 * e" by (rule rnd_err [OF h5 _ e(2)])
  with a3 have "\<bar>v2 - (cp + pp)\<bar> \<le> 7 * e" by linarith
  with pre(1) have s3: "\<bar>max 0 v2 - (cp + pp)\<bar> \<le> 7 * e" by linarith
  then have "\<bar>max 0 v2 - pp\<bar> \<le> 8 * M" using m(3) e(3) by linarith
  then have "\<bar>put - (max 0 v2 - pp)\<bar> \<le> 8 * e" by (rule rnd_err [OF h6 _ e(2)])
  with s3 have s4: "\<bar>put - cp\<bar> \<le> 15 * e" by linarith
  have y: "b - ck \<le> 2 * e" using s1' s2 pre(2) by linarith
  have s5: "0 \<le> max 0 v1 \<and> max 0 v1 \<le> 3 * e"
  proof (cases "b - ck \<le> 0")
    case True
    with h3 have "v1 \<le> 0" by (rule rnd_nonpos)
    then show ?thesis using e(1) by simp
  next
    case False
    with y have "\<bar>b - ck\<bar> \<le> 2 * e" by linarith
    then have "\<bar>v1 - (b - ck)\<bar> \<le> e" by (rule rnd_tiny [OF h3 _ e(1)]) simp
    with y e(1) show ?thesis by linarith
  qed
  then have "\<bar>max 0 v1 - cp\<bar> \<le> 4 * M" using m(3) e(3) by linarith
  then have "\<bar>call - (max 0 v1 - cp)\<bar> \<le> 4 * e" by (rule rnd_err [OF h4 _ e(2)])
  with s5 have s6: "\<bar>call + cp\<bar> \<le> 7 * e" by linarith
  with s4 have s7: "\<bar>call + put\<bar> \<le> 22 * e" by linarith
  have "\<bar>r - (call + put)\<bar> \<le> e" by (rule rnd_tiny [OF h7 s7 e(1)]) simp
  with s7 have "\<bar>r\<bar> \<le> 32 * e" using e(1) by linarith
  moreover have "calculate_payoff_rnd rnd (Strangle ck pk cp pp) b = r"
    by (simp add: r_def call_def put_def v1_def v2_def)
  ultimately show ?thesis by simp
qed

lemma straddle_as_strangle:
  "calculate_payoff_rnd rnd (Straddle k cp pp) x = calculate_payoff_rnd rnd (Strangle k k cp pp) x"
  by simp

lemma call_spread_be:
  fixes rnd :: "real \<Rightarrow> real"
  assumes R: "\<And>x. \<bar>rnd x - x\<bar> \<le> \<bar>x\<bar> / 9007199254740992"
    and pre: "0 \<le> bp - sp" "bp - sp \<le> S - B"
    and e: "0 \<le> e" "M = e * 9007199254740992" "e \<le> M"
    and m: "\<bar>bp - sp\<bar> \<le> M" "\<bar>B\<bar> + \<bar>bp - sp\<bar> \<le> M" "\<bar>S - B\<bar> \<le> M"
    and nd: "nd = rnd (bp - sp)" and x: "x = rnd (B + nd)"
  shows "\<bar>calculate_payoff_rnd rnd (CallSpread B S bp sp) x\<bar> \<le> 32 * e"
proof -
  define v where "v = rnd (x - B)"
  define w where "w = rnd (S - B)"
  have h1: "\<bar>nd - (bp - sp)\<bar> \<le> \<bar>bp - sp\<bar> / 9007199254740992" unfolding nd by (rule R)
  have h2: "\<bar>x - (B + nd)\<bar> \<le> \<bar>B + nd\<bar> / 9007199254740992" unfolding x by (rule R)
  have h3: "\<bar>v - (x - B)\<bar> \<le> \<bar>x - B\<bar> / 9007199254740992" unfolding v_def by (rule R)
  have h4: "\<bar>w - (S - B)\<bar> \<le> \<bar>S - B\<bar> / 9007199254740992" unfolding w_def by (rule R)
  have h5: "\<bar>rnd (v - nd) - (v - nd)\<bar> \<le> \<bar>v - nd\<bar> / 9007199254740992" by (rule R)
  have h6: "\<bar>rnd (w - nd) - (w - nd)\<bar> \<le> \<bar>w - nd\<bar> / 9007199254740992" by (rule R)
  have s1: "\<bar>nd - (bp - sp)\<bar> \<le> e" by (rule rnd_err1 [OF h1 m(1) e(2)])
  have s1': "0 \<le> nd" using h1 pre(1) by (rule rnd_nonneg)
  have "\<bar>B + nd\<bar> \<le> 2 * M" using s1 m(2) e(3) by linarith
  then have s2: "\<bar>x - (B + nd)\<bar> \<le> 2 * e" by (rule rnd_err [OF h2 _ e(2)])
  consider "x \<le> B" | "B < x" "x \<le> S" | "B < x" "S < x" by linarith
  then show ?thesis
  proof cases
    case 1
    have "\<bar>nd\<bar> \<le> 2 * e" using 1 s1' s2 by linarith
    then show ?thesis using 1 e(1) by (simp add: nd)
  next
    case 2
    have a: "\<bar>x - B - nd\<bar> \<le> 2 * e" using s2 by linarith
    then have "\<bar>x - B\<bar> \<le> 4 * M" using s1 m(1) e(3) by linarith
    then have "\<bar>v - (x - B)\<bar> \<le> 4 * e" by (rule rnd_err [OF h3 _ e(2)])
    with a have b: "\<bar>v - nd\<bar> \<le> 6 * e" by linarith
    have "\<bar>rnd (v - nd) - (v - nd)\<bar> \<le> e" by (rule rnd_tiny [OF h5 b e(1)]) simp
    with b have "\<bar>rnd (v - nd)\<bar> \<le> 32 * e" using e(1) by linarith
    then show ?thesis using 2 by (simp add: nd v_def)
  next
    case 3
    have a: "\<bar>S - B - nd\<bar> \<le> 2 * e" using 3 s1 s2 pre(2) by linarith
    have "\<bar>w - (S - B)\<bar> \<le> e" by (rule rnd_err1 [OF h4 m(3) e(2)])
    with a have b: "\<bar>w - nd\<bar> \<le> 3 * e" by linarith
    have "\<bar>rnd (w - nd) - (w - nd)\<bar> \<le> e" by (rule rnd_tiny [OF h6 b e(1)]) simp
    with b have "\<bar>rnd (w - nd)\<bar> \<le> 32 * e" using e(1) by linarith
    then show ?thesis using 3 by (simp add: nd w_def)
  qed
qed

lemma put_spread_be:
  fixes rnd :: "real \<Rightarrow> real"
  assumes R: "\<And>x. \<bar>rnd x - x\<bar> \<le> \<bar>x\<bar> / 9007199254740992"
    and pre: "0 \<le> bp - sp" "bp - sp \<le> B - S"
    and e: "0 \<le> e" "M = e * 9007199254740992" "e \<le> M"
    and m: "\<bar>bp - sp\<bar> \<le> M" "\<bar>B\<bar> + \<bar>bp - sp\<bar> \<le> M" "\<bar>B - S\<bar> \<le> M"
    and nd: "nd = rnd (bp - sp)" and x: "x = rnd (B - nd)"
  shows "\<bar>calculate_payoff_rnd rnd (PutSpread B S bp sp) x\<bar> \<le> 32 * e"
proof -
  define v where "v = rnd (B - x)"
  define w where "w = rnd (B - S)"
  have h1: "\<bar>nd - (bp - sp)\<bar> \<le> \<bar>bp - sp\<bar> / 9007199254740992" unfolding nd by (rule R)
  have h2: "\<bar>x - (B - nd)\<bar> \<le> \<bar>B - nd\<bar> / 9007199254740992" unfolding x by (rule R)
  have h3: "\<bar>v - (B - x)\<bar> \<le> \<bar>B - x\<bar> / 9007199254740992" unfolding v_def by (rule R)
  have h4: "\<bar>w - (B - S)\<bar> \<le> \<bar>B - S\<bar> / 9007199254740992" unfolding w_def by (rule R)
  have h5: "\<bar>rnd (v - nd) - (v - nd)\<bar> \<le> \<bar>v - nd\<bar> / 9007199254740992" by (rule R)
  have h6: "\<bar>rnd (w - nd) - (w - nd)\<bar> \<le> \<bar>w - nd\<bar> / 9007199254740992" by (rule R)
  have s1: "\<bar>nd - (bp - sp)\<bar> \<le> e" by (rule rnd_err1 [OF h1 m(1) e(2)])
  have s1': "0 \<le> nd" using h1 pre(1) by (rule rnd_nonneg)
  have "\<bar>B - nd\<bar> \<le> 2 * M" using s1 m(2) e(3) by linarith
  then have s2: "\<bar>x - (B - nd)\<bar> \<le> 2 * e" by (rule rnd_err [OF h2 _ e(2)])
  consider "B \<le> x" | "x < B" "S \<le> x" | "x < B" "x < S" by linarith
  then show ?thesis
  proof cases
    case 1
    have "\<bar>nd\<bar> \<le> 2 * e" using 1 s1' s2 by linarith
    then show ?thesis using 1 e(1) by (simp add: nd)
  next
    case 2
    have a: "\<bar>B - x - nd\<bar> \<le> 2 * e" using s2 by linarith
    then have "\<bar>B - x\<bar> \<le> 4 * M" using s1 m(1) e(3) by linarith
    then have "\<bar>v - (B - x)\<bar> \<le> 4 * e" by (rule rnd_err [OF h3 _ e(2)])
    with a have b: "\<bar>v - nd\<bar> \<le> 6 * e" by linarith
    have "\<bar>rnd (v - nd) - (v - nd)\<bar> \<le> e" by (rule rnd_tiny [OF h5 b e(1)]) simp
    with b have "\<bar>rnd (v - nd)\<bar> \<le> 32 * e" using e(1) by linarith
    then show ?thesis using 2 by (simp add: nd v_def)
  next
    case 3
    have a: "\<bar>B - S - nd\<bar> \<le> 2 * e" using 3 s1 s2 pre(2) by linarith
    have "\<bar>w - (B - S)\<bar> \<le> e" by (rule rnd_err1 [OF h4 m(3) e(2)])
    with a have b: "\<bar>w - nd\<bar> \<le> 3 * e" by linarith
    have "\<bar>rnd (w - nd) - (w - nd)\<bar> \<le> e" by (rule rnd_tiny [OF h6 b e(1)]) simp
    with b have "\<bar>rnd (w - nd)\<bar> \<le> 32 * e" using e(1) by linarith
    then show ?thesis using 3 by (simp add: nd w_def)
  qed
qed


lemma butterfly_debit:
  fixes rnd :: "real \<Rightarrow> real"
  assumes R: "\<And>x. \<bar>rnd x - x\<bar> \<le> \<bar>x\<bar> / 9007199254740992"
    and e: "0 \<le> e" "M = e * 9007199254740992"
    and m: "\<bar>2 * mp\<bar> \<le> 2 * M" "\<bar>lp - 2 * mp\<bar> \<le> 2 * M" "\<bar>lp - 2 * mp + hp\<bar> \<le> 2 * M"
  shows "\<bar>rnd (rnd (lp - rnd (2 * mp)) + hp) - (lp - 2 * mp + hp)\<bar> \<le> 8 * e"
proof -
  define q1 where "q1 = rnd (2 * mp)"
  define q2 where "q2 = rnd (lp - q1)"
  define nd where "nd = rnd (q2 + hp)"
  have h1: "\<bar>q1 - 2 * mp\<bar> \<le> \<bar>2 * mp\<bar> / 9007199254740992" unfolding q1_def by (rule R)
  have h2: "\<bar>q2 - (lp - q1)\<bar> \<le> \<bar>lp - q1\<bar> / 9007199254740992" unfolding q2_def by (rule R)
  have h3: "\<bar>nd - (q2 + hp)\<bar> \<le> \<bar>q2 + hp\<bar> / 9007199254740992" unfolding nd_def by (rule R)
  have n1: "\<bar>q1 - 2 * mp\<bar> \<le> 2 * e" by (rule rnd_err [OF h1 m(1) e(2)])
  have "\<bar>lp - q1\<bar> \<le> 2 * M + 2 * e" using n1 m(2) by linarith
  then have "\<bar>q2 - (lp - q1)\<bar> \<le> 2 * e + e" by (rule rnd_err2 [OF h2 _ e(2) e(1)]) simp
  with n1 have n2: "\<bar>q2 - (lp - 2 * mp)\<bar> \<le> 5 * e" by linarith
  have "\<bar>q2 + hp\<bar> \<le> 2 * M + 5 * e" using n2 m(3) by linarith
  then have "\<bar>nd - (q2 + hp)\<bar> \<le> 2 * e + e" by (rule rnd_err2 [OF h3 _ e(2) e(1)]) simp
  with n2 have "\<bar>nd - (lp - 2 * mp + hp)\<bar> \<le> 8 * e" by linarith
  then show ?thesis by (simp add: nd_def q2_def q1_def)
qed

lemma butterfly_lower:
  fixes rnd :: "real \<Rightarrow> real"
  assumes R: "\<And>x. \<bar>rnd x - x\<bar> \<le> \<bar>x\<bar> / 9007199254740992"
    and pre: "0 \<le> D" "D \<le> mi - lo" "hi - mi = mi - lo"
    and e: "0 \<le> e" "M = e * 9007199254740992"
    and m: "\<bar>D\<bar> \<le> 2 * M" "\<bar>lo + D\<bar> \<le> 2 * M" "\<bar>mi - lo\<bar> \<le> M"
    and nd: "nd = rnd (rnd (lp - rnd (2 * mp)) + hp)" "\<bar>nd - D\<bar> \<le> 8 * e"
    and x: "x = rnd (lo + nd)"
  shows "\<bar>calculate_payoff_rnd rnd (Butterfly lo mi hi lp mp hp) x\<bar> \<le> 32 * e"
proof -
  define v where "v = rnd (x - lo)"
  define w1 where "w1 = rnd (mi - lo)"
  define w2 where "w2 = rnd (x - mi)"
  define w3 where "w3 = rnd (w1 - w2)"
  have h2: "\<bar>x - (lo + nd)\<bar> \<le> \<bar>lo + nd\<bar> / 9007199254740992" unfolding x by (rule R)
  have h3: "\<bar>v - (x - lo)\<bar> \<le> \<bar>x - lo\<bar> / 9007199254740992" unfolding v_def by (rule R)
  have h4: "\<bar>rnd (v - nd) - (v - nd)\<bar> \<le> \<bar>v - nd\<bar> / 9007199254740992" by (rule R)
  have h5: "\<bar>w1 - (mi - lo)\<bar> \<le> \<bar>mi - lo\<bar> / 9007199254740992" unfolding w1_def by (rule R)
  have h6: "\<bar>w2 - (x - mi)\<bar> \<le> \<bar>x - mi\<bar> / 9007199254740992" unfolding w2_def by (rule R)
  have h7: "\<bar>w3 - (w1 - w2)\<bar> \<le> \<bar>w1 - w2\<bar> / 9007199254740992" unfolding w3_def by (rule R)
  have h8: "\<bar>rnd (w3 - nd) - (w3 - nd)\<bar> \<le> \<bar>w3 - nd\<bar> / 9007199254740992" by (rule R)
  have "\<bar>lo + nd\<bar> \<le> 2 * M + 8 * e" using nd(2) m(2) by linarith
  then have "\<bar>x - (lo + nd)\<bar> \<le> 2 * e + e" by (rule rnd_err2 [OF h2 _ e(2) e(1)]) simp
  then have s2: "\<bar>x - (lo + nd)\<bar> \<le> 3 * e" by linarith
  have nb: "\<bar>nd\<bar> \<le> 2 * M + 8 * e" using nd(2) m(1) by linarith
  consider "x \<le> lo" | "lo < x" "x \<le> mi" | "mi < x" "x \<le> hi" | "lo < x" "mi < x" "hi < x"
    by linarith
  then show ?thesis
  proof cases
    case 1
    have "\<bar>nd\<bar> \<le> 8 * e" using 1 s2 nd(2) pre(1) e(1) by linarith
    then show ?thesis using 1 e(1) by (simp add: nd(1))
  next
    case 2
    have a: "\<bar>x - lo - nd\<bar> \<le> 3 * e" using s2 by linarith
    with nb have "\<bar>x - lo\<bar> \<le> 2 * M + 11 * e" by linarith
    then have "\<bar>v - (x - lo)\<bar> \<le> 2 * e + e" by (rule rnd_err2 [OF h3 _ e(2) e(1)]) simp
    with a have b: "\<bar>v - nd\<bar> \<le> 6 * e" by linarith
    have "\<bar>rnd (v - nd) - (v - nd)\<bar> \<le> e" by (rule rnd_tiny [OF h4 b e(1)]) simp
    with b have "\<bar>rnd (v - nd)\<bar> \<le> 32 * e" using e(1) by linarith
    then show ?thesis using 2 by (simp add: nd(1) v_def)
  next
    case 3
    have a: "mi - lo - D \<le> 11 * e" "0 \<le> mi - lo - D" using 3(1) s2 nd(2) pre(2) by linarith+
    have b: "0 \<le> x - mi" "\<bar>x - mi\<bar> \<le> 11 * e" using 3(1) s2 nd(2) pre(2) by linarith+
    have c1: "\<bar>w1 - (mi - lo)\<bar> \<le> e" by (rule rnd_err1 [OF h5 m(3) e(2)])
    have c2: "0 \<le> w2" using h6 b(1) by (rule rnd_nonneg)
    have "\<bar>w2 - (x - mi)\<bar> \<le> e" by (rule rnd_tiny [OF h6 b(2) e(1)]) simp
    with b have c2': "w2 \<le> 12 * e" by linarith
    have c3: "\<bar>w1 - w2 - D\<bar> \<le> 13 * e" using a c1 c2 c2' e(1) by linarith
    with m(1) have "\<bar>w1 - w2\<bar> \<le> 2 * M + 13 * e" by linarith
    then have "\<bar>w3 - (w1 - w2)\<bar> \<le> 2 * e + e" by (rule rnd_err2 [OF h7 _ e(2) e(1)]) simp
    with c3 have c4: "\<bar>w3 - D\<bar> \<le> 16 * e" by linarith
    with nd(2) have c5: "\<bar>w3 - nd\<bar> \<le> 24 * e" by linarith
    have "\<bar>rnd (w3 - nd) - (w3 - nd)\<bar> \<le> e" by (rule rnd_tiny [OF h8 c5 e(1)]) simp
    with c5 have "\<bar>rnd (w3 - nd)\<bar> \<le> 32 * e" using e(1) by linarith
    moreover have "lo < x" using 3(1) a(2) pre(1) by linarith
    ultimately show ?thesis using 3 by (simp add: nd(1) w3_def w1_def w2_def)
  next
    case 4
    have "D \<le> 11 * e" using 4(3) s2 nd(2) pre by linarith
    then have "\<bar>nd\<bar> \<le> 19 * e" using nd(2) pre(1) by linarith
    then show ?thesis using 4 e(1) by (simp add: nd(1))
  qed
qed

lemma butterfly_upper:
  fixes rnd :: "real \<Rightarrow> real"
  assumes R: "\<And>x. \<bar>rnd x - x\<bar> \<le> \<bar>x\<bar> / 9007199254740992"
    and pre: "0 \<le> D" "D \<le> mi - lo" "hi - mi = mi - lo"
    and e: "0 \<le> e" "M = e * 9007199254740992"
    and m: "\<bar>D\<bar> \<le> 2 * M" "\<bar>hi - D\<bar> \<le> 2 * M" "\<bar>mi - lo\<bar> \<le> M"
    and nd: "nd = rnd (rnd (lp - rnd (2 * mp)) + hp)" "\<bar>nd - D\<bar> \<le> 8 * e"
    and x: "x = rnd (hi - nd)"
  shows "\<bar>calculate_payoff_rnd rnd (Butterfly lo mi hi lp mp hp) x\<bar> \<le> 32 * e"
proof -
  define v where "v = rnd (x - lo)"
  define w1 where "w1 = rnd (mi - lo)"
  define w2 where "w2 = rnd (x - mi)"
  define w3 where "w3 = rnd (w1 - w2)"
  have h2: "\<bar>x - (hi - nd)\<bar> \<le> \<bar>hi - nd\<bar> / 9007199254740992" unfolding x by (rule R)
  have h3: "\<bar>v - (x - lo)\<bar> \<le> \<bar>x - lo\<bar> / 9007199254740992" unfolding v_def by (rule R)
  have h4: "\<bar>rnd (v - nd) - (v - nd)\<bar> \<le> \<bar>v - nd\<bar> / 9007199254740992" by (rule R)
  have h5: "\<bar>w1 - (mi - lo)\<bar> \<le> \<bar>mi - lo\<bar> / 9007199254740992" unfolding w1_def by (rule R)
  have h6: "\<bar>w2 - (x - mi)\<bar> \<le> \<bar>x - mi\<bar> / 9007199254740992" unfolding w2_def by (rule R)
  have h7: "\<bar>w3 - (w1 - w2)\<bar> \<le> \<bar>w1 - w2\<bar> / 9007199254740992" unfolding w3_def by (rule R)
  have h8: "\<bar>rnd (w3 - nd) - (w3 - nd)\<bar> \<le> \<bar>w3 - nd\<bar> / 9007199254740992" by (rule R)
  have "\<bar>hi - nd\<bar> \<le> 2 * M + 8 * e" using nd(2) m(2) by linarith
  then have "\<bar>x - (hi - nd)\<bar> \<le> 2 * e + e" by (rule rnd_err2 [OF h2 _ e(2) e(1)]) simp
  then have s2: "\<bar>x - (hi - nd)\<bar> \<le> 3 * e" by linarith
  with nd(2) have s3: "\<bar>x - (hi - D)\<bar> \<le> 11 * e" by linarith
  have nb: "\<bar>nd\<bar> \<le> 2 * M + 8 * e" using nd(2) m(1) by linarith
  consider "x \<le> lo" | "lo < x" "x \<le> mi" | "lo < x" "mi < x" "x \<le> hi" | "lo < x" "mi < x" "hi < x"
    by linarith
  then show ?thesis
  proof cases
    case 1
    have "D \<le> 11 * e" using 1 s3 pre by linarith
    then have "\<bar>nd\<bar> \<le> 19 * e" using nd(2) pre(1) by linarith
    then show ?thesis using 1 e(1) by (simp add: nd(1))
  next
    case 2
    have a: "\<bar>x - lo - D\<bar> \<le> 11 * e" using 2 s3 pre by linarith
    have a': "\<bar>x - lo\<bar> \<le> M" using 2 m(3) by linarith
    have "\<bar>v - (x - lo)\<bar> \<le> e" by (rule rnd_err1 [OF h3 a' e(2)])
    with a nd(2) have b: "\<bar>v - nd\<bar> \<le> 20 * e" by linarith
    have "\<bar>rnd (v - nd) - (v - nd)\<bar> \<le> e" by (rule rnd_tiny [OF h4 b e(1)]) simp
    with b have "\<bar>rnd (v - nd)\<bar> \<le> 32 * e" using e(1) by linarith
    then show ?thesis using 2 by (simp add: nd(1) v_def)
  next
    case 3
    have c1: "\<bar>w1 - (mi - lo)\<bar> \<le> e" by (rule rnd_err1 [OF h5 m(3) e(2)])
    have c2': "\<bar>x - mi\<bar> \<le> M" using 3 pre(3) m(3) by linarith
    have c2: "\<bar>w2 - (x - mi)\<bar> \<le> e" by (rule rnd_err1 [OF h6 c2' e(2)])
    have c3: "\<bar>w1 - w2 - nd\<bar> \<le> 5 * e" using c1 c2 s2 pre(3) by linarith
    with nb have "\<bar>w1 - w2\<bar> \<le> 2 * M + 13 * e" by linarith
    then have "\<bar>w3 - (w1 - w2)\<bar> \<le> 2 * e + e" by (rule rnd_err2 [OF h7 _ e(2) e(1)]) simp
    with c3 have c4: "\<bar>w3 - nd\<bar> \<le> 8 * e" by linarith
    have "\<bar>rnd (w3 - nd) - (w3 - nd)\<bar> \<le> e" by (rule rnd_tiny [OF h8 c4 e(1)]) simp
    with c4 have "\<bar>rnd (w3 - nd)\<bar> \<le> 32 * e" using e(1) by linarith
    then show ?thesis using 3 by (simp add: nd(1) w3_def w1_def w2_def)
  next
    case 4
    have "\<bar>nd\<bar> \<le> 8 * e" using 4(3) s2 nd(2) pre(1) e(1) by linarith
    then show ?thesis using 4 e(1) by (simp add: nd(1))
  qed
qed


subsection \<open>Entering a position\<close>

lemma enter_position_appends:
  assumes "enter_position today e s = Inr e'" and "positions e' \<noteq> positions e"
  shows "positions e' = positions e @ [new_position e s (calculate_position_size e s)]"
  using assms by (auto simp: enter_position_def Let_def split: sum.splits if_splits option.splits)

lemma enter_position_fresh:
  "enter_position 0 fresh_engine example_condor =
     Inr (fresh_engine\<lparr>positions := [new_position fresh_engine example_condor 10]\<rparr>)"
  by (simp add: example_defs enter_position_def should_enter_trade_def
        calculate_position_size_def py_int_def is_expired_def days_to_expiration_def)

lemma enter_position_fresh_changes:
  "positions (fresh_engine\<lparr>positions := [new_position fresh_engine example_condor 10]\<rparr>)
     \<noteq> positions fresh_engine"
  by (simp add: example_defs)

lemma enter_position_straddle:
  "enter_position 0 fresh_engine example_straddle =
     Inr (fresh_engine\<lparr>positions := [new_position fresh_engine example_straddle 7]\<rparr>)"
  by (simp add: example_defs enter_position_def should_enter_trade_def
        calculate_position_size_def py_int_def is_expired_def days_to_expiration_def)

lemma enter_position_straddle_changes:
  "positions (fresh_engine\<lparr>positions := [new_position fresh_engine example_straddle 7]\<rparr>)
     \<noteq> positions fresh_engine"
  by (simp add: example_defs)

subsection \<open>Identifier and entry date of a position never change\<close>

lemma update_positions_loop_identity:
  "update_positions_loop nv ps ss k = (ps', ss', k') \<Longrightarrow>
   map p_id ps' = map p_id ps \<and> map p_entry_date ps' = map p_entry_date ps"
proof (induction ps arbitrary: ss k ps' ss' k')
  case Nil
  then show ?case by simp
next
  case (Cons p ps)
  show ?case
  proof (cases "find_strategy (p_symbol p) ss")
    case None
    obtain qs ts j where r: "update_positions_loop nv ps ss k = (qs, ts, j)"
      by (cases "update_positions_loop nv ps ss k") auto
    from Cons.IH [OF r] Cons.prems None r show ?thesis by auto
  next
    case (Some s)
    let ?price = "simulate_price_movement (nv k) (p_symbol p) (p_current_price p) 1"
    obtain qs ts j where
      r: "update_positions_loop nv ps (set_strategy_price (p_symbol p) ?price ss) (Suc k)
            = (qs, ts, j)"
      by (cases "update_positions_loop nv ps (set_strategy_price (p_symbol p) ?price ss) (Suc k)")
         auto
    from Cons.IH [OF r] Cons.prems Some r show ?thesis by (auto simp: Let_def)
  qed
qed

lemma update_positions_identity:
  "map p_id (positions (update_positions nv e)) = map p_id (positions e) \<and>
   map p_entry_date (positions (update_positions nv e)) = map p_entry_date (positions e)"
proof -
  obtain ps ss k where
    r: "update_positions_loop nv (positions e) (strategies e) (draws e) = (ps, ss, k)"
    by (cases "update_positions_loop nv (positions e) (strategies e) (draws e)") auto
  from update_positions_loop_identity [OF r] r show ?thesis
    by (simp add: update_positions_def)
qed

subsection \<open>A run without capital\<close>

lemma enter_position_no_cash: "cash e = 0 \<Longrightarrow> enter_position today e s = Inr e"
  by (simp add: enter_position_def should_enter_trade_def calculate_position_size_def
        py_int_def Let_def)

lemma enter_positions_no_cash: "cash e = 0 \<Longrightarrow> enter_positions today ss e = Inr e"
  by (induction ss) (simp_all add: enter_position_no_cash)

lemma simulate_day_idle:
  "cash e = 0 \<Longrightarrow> positions e = [] \<Longrightarrow>
   simulate_day today nv d e = Inr (e\<lparr>current_date := today + d\<rparr>)"
  by (simp add: simulate_day_def update_positions_def positions_to_close_def
        enter_positions_no_cash Let_def)

lemma run_days_idle:
  "cash e = 0 \<Longrightarrow> positions e = [] \<Longrightarrow>
   \<exists>e'. run_days today nv d n e = Inr e' \<and> cash e' = 0 \<and> positions e' = [] \<and>
        trades e' = trades e \<and> config e' = config e"
proof (induction n arbitrary: d e)
  case 0
  then show ?case by simp
next
  case (Suc n)
  let ?e1 = "e\<lparr>current_date := today + int d\<rparr>"
  have "cash ?e1 = 0" and "positions ?e1 = []"
    using Suc.prems by simp_all
  from Suc.IH [OF this, of "Suc d"] show ?case
    using Suc.prems by (simp add: simulate_day_idle)
qed

lemma run_simulation_zero_capital:
  assumes "initial_capital (config e) = 0"
  shows "run_simulation today nv e = Inl ZeroDivisionError"
proof -
  have "cash (reset_state today e) = 0" "positions (reset_state today e) = []"
    using assms by (simp_all add: reset_state_def)
  from run_days_idle [OF this] obtain e1 where
    r: "run_days today nv 0 (nat (simulation_days (config e))) (reset_state today e) = Inr e1"
    and e1: "positions e1 = []" "config e1 = config (reset_state today e)"
    by blast
  have "config e1 = config e" using e1 by (simp add: reset_state_def)
  then have "calculate_results e1 = Inl ZeroDivisionError"
    using assms by (simp add: calculate_results_def Let_def)
  then show ?thesis using r e1 by (simp add: run_simulation_def)
qed

subsection \<open>The aggregate results\<close>

lemma calculate_results_zero_trades:
  assumes "trades e = []" and "initial_capital (config e) \<noteq> 0"
  shows "\<exists>r. calculate_results e = Inr r \<and> total_trades r = 0 \<and> winning_trades r = 0 \<and>
           losing_trades r = 0 \<and> win_rate r = 0"
  using assms by (simp add: calculate_results_def)

lemma calculate_results_win_rate:
  assumes "calculate_results e = Inr r"
  shows "total_trades r = int (length (trades e)) \<and>
         winning_trades r = int (length (filter (\<lambda>t. t_pnl t > 0) (trades e))) \<and>
         losing_trades r = total_trades r - winning_trades r \<and>
         win_rate r = (if total_trades r > 0
                       then real_of_int (winning_trades r) / real_of_int (total_trades r) * 100
                       else 0)"
  using assms by (auto simp: calculate_results_def Let_def split: if_splits)

subsection \<open>The loop over the days\<close>

text \<open>The first \<open>m\<close> iterations of a longer loop are the loop of \<open>m\<close> iterations.\<close>

lemma run_days_add:
  "run_days today nv d (m + n) e =
     (case run_days today nv d m e of
        Inl err \<Rightarrow> Inl err
      | Inr e' \<Rightarrow> run_days today nv (d + m) n e')"
  by (induction m arbitrary: d e) (simp_all split: sum.splits)

lemma spread_day_1:
  "run_days 0 no_drift 0 1 (reset_state 0 spread_engine) =
     Inr (spread_engine\<lparr>positions := [first_spread_position]\<rparr>)"
  using format_04d_1 by (simp add: example_defs engine_defs)

lemma spread_day_2:
  "run_days 0 no_drift 0 2 (reset_state 0 spread_engine) =
     Inr (spread_engine\<lparr>positions := [second_spread_position],
       cash := 9970, current_date := 1, trade_counter := 1, draws := 1,
       trades := [first_spread_trade]\<rparr>)"
  using format_04d_1 format_04d_0 by (simp add: example_defs engine_defs eval_nat_numeral)

lemma spread_run:
  "\<exists>r ef. run_simulation 0 no_drift spread_engine = Inr (r, ef) \<and>
          result_trades r = [first_spread_trade, second_spread_trade]"
proof -
  have "nat (simulation_days (config spread_engine)) = 2"
    by (simp add: spread_engine_def)
  then show ?thesis
    using format_04d_1 format_04d_0
    by (simp add: run_simulation_def spread_day_2)
       (simp add: example_defs engine_defs)
qed

lemma short_run_day_3:
  "run_days 0 rally 0 4 (reset_state 0 short_engine) = Inr short_engine_day_3"
  using format_04d_1 format_04d_0 by (simp add: example_defs engine_defs eval_nat_numeral)

section \<open>Payoff model\<close>

text \<open>
  A Butterfly whose upper wing (120 - 100) is wider than its lower wing (100 - 90), with
  premiums 12, 5 and 1, so a net debit of 3: at the spot price 120 the payoff is
  (100 - 90) - (120 - 100) - 3 = -13, below the negated maximum loss -3.
\<close>

theorem payoff_bound_counterexample:
  "(0::real) \<le> 120 \<and>
   calculate_payoff (Butterfly 90 100 120 12 5 1) 120 = - 13 \<and>
   - get_max_loss (Butterfly 90 100 120 12 5 1) = - 3 \<and>
   \<not> (calculate_payoff (Butterfly 90 100 120 12 5 1) 120
        \<ge> - get_max_loss (Butterfly 90 100 120 12 5 1))"
  by simp

text \<open>
  Claim C1, as amended: for every strategy whose strikes are in their natural order
  (\<open>ordered_strikes\<close>) and every spot price, the payoff is at least the negated maximum
  loss, and when the maximum profit is finite the payoff is at most the maximum profit.
\<close>

theorem payoff_within_bounds:
  assumes "ordered_strikes l"
  shows "- get_max_loss l \<le> calculate_payoff l spot \<and>
         (\<forall>m. get_max_profit l = Fin m \<longrightarrow> calculate_payoff l spot \<le> m)"
  using assms payoff_lower_bound payoff_upper_bound by blast

text \<open>The Iron Condor of the specification's scenario at the spot price 158.\<close>

theorem payoff_within_bounds_witness:
  "ordered_strikes (IronCondor 155 160 145 140 2.5) \<and>
   - get_max_loss (IronCondor 155 160 145 140 2.5)
      \<le> calculate_payoff (IronCondor 155 160 145 140 2.5) 158 \<and>
   calculate_payoff (IronCondor 155 160 145 140 2.5) 158 \<le> 2.5"
  using payoff_within_bounds [of "IronCondor 155 160 145 140 2.5" 158] by simp

text \<open>
  An Iron Condor with strikes 155, 160, 145, 140 and the double nearest to 2.35 as net
  credit (maximum loss 2.65): in double arithmetic the upper break-even price 155 + 2.35
  rounds, and the payoff there is \<open>13 / 2 ^ 51\<close> (about 5.8e-15), not 0. And a Call
  Spread bought at 100 for 8 and sold at 105 for 1, whose net debit 7 exceeds its width
  5: its declared break-even price is 107 and the payoff there is -2, with no rounding.
\<close>

theorem break_even_counterexample:
  "premium_within_width (IronCondor 155 160 145 140 (round_double 2.35)) \<and>
   0 < get_max_loss (IronCondor 155 160 145 140 (round_double 2.35)) \<and>
   get_break_even_points round_double (IronCondor 155 160 145 140 (round_double 2.35))
     = [5019050678471885 / 35184372088832, 5536260948177715 / 35184372088832] \<and>
   calculate_payoff_rnd round_double (IronCondor 155 160 145 140 (round_double 2.35))
     (5536260948177715 / 35184372088832) = 13 / 2251799813685248 \<and>
   0 < get_max_loss (CallSpread 100 105 8 1) \<and>
   get_break_even_points round_double (CallSpread 100 105 8 1) = [107] \<and>
   calculate_payoff_rnd round_double (CallSpread 100 105 8 1) 107 = - 2"
  by (simp add: double_defs)

text \<open>
  Claim C2, as amended: for every strategy whose net credit or debit lies between 0 and
  the width of its spread (\<open>premium_within_width\<close>), at every price that
  \<open>get_break_even_points\<close> returns the payoff is 0 within floating tolerance: computed
  in double arithmetic, its absolute value is at most \<open>2 ^ - 48\<close> times the sum of the
  absolute values of the strategy's strikes and premiums.
\<close>

theorem payoff_near_zero_at_break_even:
  assumes "premium_within_width l"
  shows "\<forall>b \<in> set (get_break_even_points round_double l).
           \<bar>calculate_payoff_rnd round_double l b\<bar> \<le> tolerance l"
proof (cases l)
  case (IronCondor sc lc sp lp nc)
  define M where "M = \<bar>sc\<bar> + \<bar>lc\<bar> + \<bar>sp\<bar> + \<bar>lp\<bar> + \<bar>nc\<bar>"
  define e where "e = M / 9007199254740992"
  have M: "0 \<le> M" by (simp add: M_def)
  have e: "0 \<le> e" "M = e * 9007199254740992" "e \<le> M" using M by (simp_all add: e_def)
  have pre: "0 \<le> nc" "nc \<le> lc - sc" "nc \<le> sp - lp" "sp \<le> sc"
    using assms IronCondor by simp_all
  have m: "\<bar>sc + nc\<bar> \<le> M" "\<bar>sp - nc\<bar> \<le> M" "\<bar>lc - sc\<bar> \<le> M" "\<bar>sp - lp\<bar> \<le> M" "\<bar>nc\<bar> \<le> M"
    unfolding M_def by linarith+
  have "\<bar>calculate_payoff_rnd round_double l (round_double (sc + nc))\<bar> \<le> 32 * e"
    unfolding IronCondor
    by (rule condor_upper [OF round_double_unit pre e m(1) m(3) m(5) refl])
  moreover have "\<bar>calculate_payoff_rnd round_double l (round_double (sp - nc))\<bar> \<le> 32 * e"
    unfolding IronCondor
    by (rule condor_lower [OF round_double_unit pre e m(2) m(4) m(5) refl])
  moreover have "tolerance l = 32 * e" by (simp add: tolerance_def IronCondor e_def M_def)
  ultimately show ?thesis by (simp add: IronCondor)
next
  case (Straddle k cp pp)
  define M where "M = \<bar>k\<bar> + \<bar>cp\<bar> + \<bar>pp\<bar>"
  define e where "e = M / 9007199254740992"
  have M: "0 \<le> M" by (simp add: M_def)
  have e: "0 \<le> e" "M = e * 9007199254740992" "e \<le> M" using M by (simp_all add: e_def)
  have pre: "0 \<le> cp + pp" "k \<le> k" using assms Straddle by simp_all
  have m: "\<bar>cp + pp\<bar> \<le> M" "\<bar>k\<bar> + \<bar>cp + pp\<bar> \<le> M" "\<bar>pp\<bar> \<le> M" "\<bar>cp\<bar> \<le> M"
    unfolding M_def by linarith+
  have "\<bar>calculate_payoff_rnd round_double l
          (round_double (k + round_double (cp + pp)))\<bar> \<le> 32 * e"
    unfolding Straddle straddle_as_strangle
    by (rule strangle_upper [OF round_double_unit pre e m(1) m(2) m(3) refl refl])
  moreover have "\<bar>calculate_payoff_rnd round_double l
          (round_double (k - round_double (cp + pp)))\<bar> \<le> 32 * e"
    unfolding Straddle straddle_as_strangle
    by (rule strangle_lower [OF round_double_unit pre e m(1) m(2) m(4) refl refl])
  moreover have "tolerance l = 32 * e" by (simp add: tolerance_def Straddle e_def M_def)
  ultimately show ?thesis by (simp add: Straddle Let_def)
next
  case (Strangle ck pk cp pp)
  define M where "M = \<bar>ck\<bar> + \<bar>pk\<bar> + \<bar>cp\<bar> + \<bar>pp\<bar>"
  define e where "e = M / 9007199254740992"
  have M: "0 \<le> M" by (simp add: M_def)
  have e: "0 \<le> e" "M = e * 9007199254740992" "e \<le> M" using M by (simp_all add: e_def)
  have pre: "0 \<le> cp + pp" "pk \<le> ck" using assms Strangle by simp_all
  have m: "\<bar>cp + pp\<bar> \<le> M" "\<bar>ck\<bar> + \<bar>cp + pp\<bar> \<le> M" "\<bar>pk\<bar> + \<bar>cp + pp\<bar> \<le> M"
    "\<bar>pp\<bar> \<le> M" "\<bar>cp\<bar> \<le> M"
    unfolding M_def by linarith+
  have "\<bar>calculate_payoff_rnd round_double l
          (round_double (ck + round_double (cp + pp)))\<bar> \<le> 32 * e"
    unfolding Strangle
    by (rule strangle_upper [OF round_double_unit pre e m(1) m(2) m(4) refl refl])
  moreover have "\<bar>calculate_payoff_rnd round_double l
          (round_double (pk - round_double (cp + pp)))\<bar> \<le> 32 * e"
    unfolding Strangle
    by (rule strangle_lower [OF round_double_unit pre e m(1) m(3) m(5) refl refl])
  moreover have "tolerance l = 32 * e" by (simp add: tolerance_def Strangle e_def M_def)
  ultimately show ?thesis by (simp add: Strangle Let_def)
next
  case (CallSpread B S bp sp)
  define M where "M = \<bar>B\<bar> + \<bar>S\<bar> + \<bar>bp\<bar> + \<bar>sp\<bar>"
  define e where "e = M / 9007199254740992"
  have M: "0 \<le> M" by (simp add: M_def)
  have e: "0 \<le> e" "M = e * 9007199254740992" "e \<le> M" using M by (simp_all add: e_def)
  have pre: "0 \<le> bp - sp" "bp - sp \<le> S - B" using assms CallSpread by simp_all
  have m: "\<bar>bp - sp\<bar> \<le> M" "\<bar>B\<bar> + \<bar>bp - sp\<bar> \<le> M" "\<bar>S - B\<bar> \<le> M"
    unfolding M_def by linarith+
  have "\<bar>calculate_payoff_rnd round_double l
          (round_double (B + round_double (bp - sp)))\<bar> \<le> 32 * e"
    unfolding CallSpread
    by (rule call_spread_be [OF round_double_unit pre e m refl refl])
  moreover have "tolerance l = 32 * e" by (simp add: tolerance_def CallSpread e_def M_def)
  ultimately show ?thesis by (simp add: CallSpread Let_def)
next
  case (PutSpread B S bp sp)
  define M where "M = \<bar>B\<bar> + \<bar>S\<bar> + \<bar>bp\<bar> + \<bar>sp\<bar>"
  define e where "e = M / 9007199254740992"
  have M: "0 \<le> M" by (simp add: M_def)
  have e: "0 \<le> e" "M = e * 9007199254740992" "e \<le> M" using M by (simp_all add: e_def)
  have pre: "0 \<le> bp - sp" "bp - sp \<le> B - S" using assms PutSpread by simp_all
  have m: "\<bar>bp - sp\<bar> \<le> M" "\<bar>B\<bar> + \<bar>bp - sp\<bar> \<le> M" "\<bar>B - S\<bar> \<le> M"
    unfolding M_def by linarith+
  have "\<bar>calculate_payoff_rnd round_double l
          (round_double (B - round_double (bp - sp)))\<bar> \<le> 32 * e"
    unfolding PutSpread
    by (rule put_spread_be [OF round_double_unit pre e m refl refl])
  moreover have "tolerance l = 32 * e" by (simp add: tolerance_def PutSpread e_def M_def)
  ultimately show ?thesis by (simp add: PutSpread Let_def)
next
  case (Butterfly lo mi hi lp mp hp)
  define M where "M = \<bar>lo\<bar> + \<bar>mi\<bar> + \<bar>hi\<bar> + \<bar>lp\<bar> + \<bar>mp\<bar> + \<bar>hp\<bar>"
  define e where "e = M / 9007199254740992"
  define D where "D = lp - 2 * mp + hp"
  define nd where "nd = round_double (round_double (lp - round_double (2 * mp)) + hp)"
  have e: "0 \<le> e" "M = e * 9007199254740992" by (simp_all add: e_def M_def)
  have pre: "0 \<le> D" "D \<le> mi - lo" "hi - mi = mi - lo"
    using assms Butterfly by (simp_all add: D_def)
  define P where "P = \<bar>lp\<bar> + \<bar>mp\<bar> + \<bar>mp\<bar> + \<bar>hp\<bar>"
  have P: "\<bar>2 * mp\<bar> \<le> P" "\<bar>lp - 2 * mp\<bar> \<le> P" "\<bar>D\<bar> \<le> P"
    unfolding P_def D_def by linarith+
  have MP: "P \<le> 2 * M" "\<bar>lo\<bar> + P \<le> 2 * M" "\<bar>hi\<bar> + P \<le> 2 * M" "\<bar>mi\<bar> + \<bar>lo\<bar> \<le> M"
    unfolding M_def P_def by (simp_all add: algebra_simps)
  have m1: "\<bar>2 * mp\<bar> \<le> 2 * M" "\<bar>lp - 2 * mp\<bar> \<le> 2 * M" "\<bar>lp - 2 * mp + hp\<bar> \<le> 2 * M"
    using P MP(1) unfolding D_def by linarith+
  have m2: "\<bar>D\<bar> \<le> 2 * M" "\<bar>lo + D\<bar> \<le> 2 * M" "\<bar>hi - D\<bar> \<le> 2 * M" "\<bar>mi - lo\<bar> \<le> M"
    using P(3) MP by linarith+
  have ndD: "\<bar>nd - D\<bar> \<le> 8 * e"
    unfolding nd_def D_def by (rule butterfly_debit [OF round_double_unit e m1])
  have "\<bar>calculate_payoff_rnd round_double l (round_double (lo + nd))\<bar> \<le> 32 * e"
    unfolding Butterfly
    by (rule butterfly_lower [OF round_double_unit pre e m2(1) m2(2) m2(4) nd_def ndD refl])
  moreover have "\<bar>calculate_payoff_rnd round_double l (round_double (hi - nd))\<bar> \<le> 32 * e"
    unfolding Butterfly
    by (rule butterfly_upper [OF round_double_unit pre e m2(1) m2(3) m2(4) nd_def ndD refl])
  moreover have "tolerance l = 32 * e" by (simp add: tolerance_def Butterfly e_def M_def)
  ultimately show ?thesis by (simp add: Butterfly nd_def Let_def)
qed

text \<open>
  A Straddle at the strike 200 with the doubles nearest to 15.1 and 12.2 as premiums:
  its break-even prices are the doubles next to 172.7 and 227.3, and the payoff at both
  is \<open>7 / 2 ^ 49\<close> (about 1.2e-14), below the tolerance.
\<close>

theorem payoff_near_zero_at_break_even_witness:
  "premium_within_width (Straddle 200 (round_double 15.1) (round_double 12.2)) \<and>
   get_break_even_points round_double (Straddle 200 (round_double 15.1) (round_double 12.2))
     = [3038170529870643 / 17592186044416, 3998703887895757 / 17592186044416] \<and>
   calculate_payoff_rnd round_double (Straddle 200 (round_double 15.1) (round_double 12.2))
     (3038170529870643 / 17592186044416) = 7 / 562949953421312 \<and>
   calculate_payoff_rnd round_double (Straddle 200 (round_double 15.1) (round_double 12.2))
     (3998703887895757 / 17592186044416) = 7 / 562949953421312 \<and>
   \<bar>calculate_payoff_rnd round_double (Straddle 200 (round_double 15.1) (round_double 12.2))
      (3998703887895757 / 17592186044416)\<bar>
     \<le> tolerance (Straddle 200 (round_double 15.1) (round_double 12.2))"
proof -
  let ?l = "Straddle 200 (round_double 15.1) (round_double 12.2)"
  have h: "premium_within_width ?l"
    by (simp add: double_defs)
  have be: "get_break_even_points round_double ?l
      = [3038170529870643 / 17592186044416, 3998703887895757 / 17592186044416]"
    by (simp add: double_defs)
  have v1: "calculate_payoff_rnd round_double ?l (3038170529870643 / 17592186044416)
      = 7 / 562949953421312"
    by (simp add: double_defs)
  have v2: "calculate_payoff_rnd round_double ?l (3998703887895757 / 17592186044416)
      = 7 / 562949953421312"
    by (simp add: double_defs)
  have "3998703887895757 / 17592186044416 \<in> set (get_break_even_points round_double ?l)"
    unfolding be by simp
  with payoff_near_zero_at_break_even [OF h]
  have t: "\<bar>calculate_payoff_rnd round_double ?l (3998703887895757 / 17592186044416)\<bar>
      \<le> tolerance ?l"
    by (rule bspec)
  show ?thesis
  proof (intro conjI)
    show "premium_within_width ?l" by (rule h)
    show "get_break_even_points round_double ?l
      = [3038170529870643 / 17592186044416, 3998703887895757 / 17592186044416]" by (rule be)
    show "calculate_payoff_rnd round_double ?l (3038170529870643 / 17592186044416)
      = 7 / 562949953421312" by (rule v1)
    show "calculate_payoff_rnd round_double ?l (3998703887895757 / 17592186044416)
      = 7 / 562949953421312" by (rule v2)
    show "\<bar>calculate_payoff_rnd round_double ?l (3998703887895757 / 17592186044416)\<bar>
      \<le> tolerance ?l" by (rule t)
  qed
qed

section \<open>Risk analyzer\<close>

text \<open>
  The Straddle of the specification's scenario: its maximum loss is 27 and its maximum
  profit is infinite, so the quotient is infinite, and the analyzer returns 0.
\<close>

theorem risk_reward_ratio_counterexample:
  "get_max_loss (Straddle 200 15 12) \<noteq> 0 \<and>
   calculate_risk_reward_ratio (Straddle 200 15 12) = Fin 0 \<and>
   spec_risk_reward_ratio (Straddle 200 15 12) = Infinity \<and>
   calculate_risk_reward_ratio (Straddle 200 15 12) \<noteq> spec_risk_reward_ratio (Straddle 200 15 12)"
  by (simp add: calculate_risk_reward_ratio_def spec_risk_reward_ratio_def)

text \<open>
  Claim C7, as amended: when the maximum loss is not 0, the risk/reward ratio is the
  maximum profit divided by the absolute maximum loss if the maximum profit is finite,
  and 0 if it is infinite; when the maximum loss is 0, the ratio is infinite if the
  maximum profit is positive and 0 otherwise.
\<close>

theorem risk_reward_ratio_cases:
  "(get_max_loss l \<noteq> 0 \<longrightarrow>
      calculate_risk_reward_ratio l =
        (case get_max_profit l of
           Fin m \<Rightarrow> Fin (m / \<bar>get_max_loss l\<bar>)
         | Infinity \<Rightarrow> Fin 0)) \<and>
   (get_max_loss l = 0 \<longrightarrow>
      calculate_risk_reward_ratio l =
        (if xfloat_pos (get_max_profit l) then Infinity else Fin 0))"
  by (simp add: calculate_risk_reward_ratio_def Let_def)

text \<open>
  An Iron Condor with ratio 2.5 / 2.5 = 1, and a Call Spread bought and sold at the same
  premium (maximum loss 0, maximum profit 10) with an infinite ratio.
\<close>

theorem risk_reward_ratio_cases_witness:
  "get_max_loss (IronCondor 155 160 145 140 2.5) \<noteq> 0 \<and>
   get_max_profit (IronCondor 155 160 145 140 2.5) = Fin 2.5 \<and>
   calculate_risk_reward_ratio (IronCondor 155 160 145 140 2.5) = Fin 1 \<and>
   get_max_loss (CallSpread 100 110 4 4) = 0 \<and>
   calculate_risk_reward_ratio (CallSpread 100 110 4 4) = Infinity"
  using risk_reward_ratio_cases [of "IronCondor 155 160 145 140 2.5"]
        risk_reward_ratio_cases [of "CallSpread 100 110 4 4"] by simp

section \<open>Closing positions\<close>

text \<open>
  Closing the open position of \<open>example_engine\<close> moves the trade counter from 0 to 1:
  a field of the ledger other than cash, positions and trades changes.
\<close>

theorem close_position_counter_counterexample:
  "example_position \<in> set (positions example_engine) \<and>
   trade_counter example_engine = 0 \<and>
   trade_counter (snd (close_position example_position example_engine)) = 1"
  by (simp add: example_defs close_position_def find_strategy_def Let_def)

text \<open>
  Claim C3, as amended: closing an open position whose symbol some strategy has returns
  a new trade that carries the realized profit or loss (the payoff of the first strategy
  with that symbol at the position's current price, times the quantity), the position's
  data, the current date as exit date and an identifier made from the trade counter; it
  adds exactly that profit or loss to cash, appends the trade to the trade list, removes
  the position from the open positions and increments the trade counter by one. It also
  sets that strategy's reference price to the position's current price. Configuration,
  current date and random generator stay as they are.
\<close>

theorem close_position_effect:
  assumes "find_strategy (p_symbol p) (strategies e) = Some s"
      and "p \<in> set (positions e)"
  shows "\<exists>t e'. close_position p e = (Inr (Some t), e') \<and>
           t_pnl t = calculate_payoff (s_legs s) (p_current_price p) * real_of_int (p_quantity p) \<and>
           t_id t = ''T'' @ format_04d (trade_counter e) \<and>
           t_symbol t = p_symbol p \<and> t_strategy_type t = p_strategy_type p \<and>
           t_entry_date t = p_entry_date p \<and> t_exit_date t = current_date e \<and>
           t_entry_price t = p_entry_price p \<and> t_exit_price t = p_current_price p \<and>
           t_quantity t = p_quantity p \<and> t_action t = ''SELL'' \<and>
           cash e' = cash e + t_pnl t \<and>
           trades e' = trades e @ [t] \<and>
           positions e' = remove1 p (positions e) \<and>
           trade_counter e' = trade_counter e + 1 \<and>
           strategies e' = set_strategy_price (p_symbol p) (p_current_price p) (strategies e) \<and>
           config e' = config e \<and> current_date e' = current_date e \<and> draws e' = draws e"
  using assms by (simp add: close_position_def Let_def)

text \<open>
  Ten Iron Condors closed at the price 158: the payoff is 2.5 - 3 = -0.5 per unit, so the
  trade T0000 realizes -5 and cash goes from 10000 to 9995.
\<close>

theorem close_position_effect_witness:
  "find_strategy (p_symbol example_position) (strategies example_engine) = Some example_condor \<and>
   example_position \<in> set (positions example_engine) \<and>
   (\<exists>t e'. close_position example_position example_engine = (Inr (Some t), e') \<and>
      t_pnl t = - 5 \<and> t_id t = ''T0000'' \<and> cash e' = 9995 \<and> trades e' = [t] \<and>
      positions e' = [] \<and> trade_counter e' = 1)"
proof -
  have h1: "find_strategy (p_symbol example_position) (strategies example_engine)
              = Some example_condor"
    by (simp add: example_defs find_strategy_def)
  have h2: "example_position \<in> set (positions example_engine)"
    by (simp add: example_defs)
  have v: "calculate_payoff (s_legs example_condor) (p_current_price example_position)
             * real_of_int (p_quantity example_position) = - 5"
    by (simp add: example_defs)
  show ?thesis
    using h1 h2 close_position_effect [OF h1 h2] v
    by (auto simp: example_defs format_04d_0)
qed

text \<open>
  Claim C9: closing a position whose symbol is the symbol of no strategy of the engine
  returns None and leaves the engine, hence cash, open positions, trades and trade
  counter, exactly as it was.
\<close>

theorem close_position_unknown_symbol:
  assumes "p_symbol p \<notin> s_symbol ` set (strategies e)"
  shows "close_position p e = (Inr None, e)"
proof -
  have "find_strategy (p_symbol p) (strategies e) = None"
    using assms by (force simp: find_strategy_def find_None_iff)
  then show ?thesis by (simp add: close_position_def)
qed

text \<open>A position in MSFT, for an engine that holds strategies on AAPL and TSLA.\<close>

theorem close_position_unknown_symbol_witness:
  "p_symbol orphan_position \<notin> s_symbol ` set (strategies example_engine) \<and>
   close_position orphan_position example_engine = (Inr None, example_engine)"
proof -
  have h: "p_symbol orphan_position \<notin> s_symbol ` set (strategies example_engine)"
    by (simp add: example_defs)
  show ?thesis using h close_position_unknown_symbol [OF h] by simp
qed

section \<open>Position sizing\<close>

text \<open>
  With a cash balance of -1010 the quotient is -8.08: its floor is -9, the code computes
  -8, and the size it returns is negative, not 0.
\<close>

theorem position_size_counterexample:
  "cash indebted_engine * risk_per_trade (config indebted_engine)
     / \<bar>get_max_loss (s_legs example_condor)\<bar> = - 8.08 \<and>
   min \<lfloor>cash indebted_engine * risk_per_trade (config indebted_engine)
         / \<bar>get_max_loss (s_legs example_condor)\<bar>\<rfloor> 10 = - 9 \<and>
   calculate_position_size indebted_engine example_condor = - 8"
  by (simp add: example_defs calculate_position_size_def py_int_def)

text \<open>
  Claim C4, as amended: the position size is 0 when the absolute maximum loss is not
  positive, and otherwise cash times risk per trade divided by the absolute maximum loss,
  truncated toward zero and capped at 10; this is the floor of the quotient, capped at
  10, whenever cash times risk per trade is not negative; and a size that is not
  positive blocks the entry.
\<close>

theorem position_size_rule:
  "calculate_position_size e s =
     (if \<bar>get_max_loss (s_legs s)\<bar> \<le> 0 then 0
      else min (py_int (cash e * risk_per_trade (config e) / \<bar>get_max_loss (s_legs s)\<bar>)) 10) \<and>
   (0 \<le> cash e * risk_per_trade (config e) \<and> 0 < \<bar>get_max_loss (s_legs s)\<bar> \<longrightarrow>
      calculate_position_size e s =
        min \<lfloor>cash e * risk_per_trade (config e) / \<bar>get_max_loss (s_legs s)\<bar>\<rfloor> 10) \<and>
   (calculate_position_size e s \<le> 0 \<longrightarrow> should_enter_trade today e s = Inr False)"
  by (auto simp: calculate_position_size_def should_enter_trade_def Let_def py_int_def)

text \<open>
  The scenario of the specification: cash 10000, risk per trade 0.02 and a maximum loss
  of 2.50 give the quotient 80 and the size min(80, 10) = 10.
\<close>

theorem position_size_rule_witness:
  "0 \<le> cash fresh_engine * risk_per_trade (config fresh_engine) \<and>
   \<bar>get_max_loss (s_legs example_condor)\<bar> = 2.5 \<and>
   \<lfloor>cash fresh_engine * risk_per_trade (config fresh_engine)
      / \<bar>get_max_loss (s_legs example_condor)\<bar>\<rfloor> = 80 \<and>
   calculate_position_size fresh_engine example_condor = 10"
  using position_size_rule [of fresh_engine example_condor 0]
  by (simp add: example_defs)

section \<open>Exit and entry rules\<close>

text \<open>
  A run of four days with one Call Spread that expires on day 4. The position opened on
  day 0 is closed on day 2 and a new one is opened the same day, 2 days before the
  expiration. On day 3 it has been held 1 day, half of the days to expiration that it
  had at entry, and the exit check says no: the strategy's days to expiration are still
  the 4 days counted from today. The position stays open.
\<close>

theorem exit_rule_counterexample:
  "run_days 0 rally 0 4 (reset_state 0 short_engine) = Inr short_engine_day_3 \<and>
   positions short_engine_day_3 = [reentered_position] \<and>
   find_strategy (p_symbol reentered_position) (strategies short_engine_day_3)
     = Some (short_spread\<lparr>s_current_price := 103.2\<rparr>) \<and>
   current_date short_engine_day_3 - p_entry_date reentered_position = 1 \<and>
   s_expiration short_spread - p_entry_date reentered_position = 2 \<and>
   real_of_int (current_date short_engine_day_3 - p_entry_date reentered_position)
     \<ge> 0.5 * real_of_int (s_expiration short_spread - p_entry_date reentered_position) \<and>
   days_to_expiration 0 (short_spread\<lparr>s_current_price := 103.2\<rparr>) = 4 \<and>
   \<not> should_exit_trade 0 short_engine_day_3 reentered_position
       (short_spread\<lparr>s_current_price := 103.2\<rparr>) \<and>
   positions_to_close 0 short_engine_day_3 = []"
proof -
  have "positions short_engine_day_3 = [reentered_position] \<and>
   find_strategy (p_symbol reentered_position) (strategies short_engine_day_3)
     = Some (short_spread\<lparr>s_current_price := 103.2\<rparr>) \<and>
   current_date short_engine_day_3 - p_entry_date reentered_position = 1 \<and>
   s_expiration short_spread - p_entry_date reentered_position = 2 \<and>
   real_of_int (current_date short_engine_day_3 - p_entry_date reentered_position)
     \<ge> 0.5 * real_of_int (s_expiration short_spread - p_entry_date reentered_position) \<and>
   days_to_expiration 0 (short_spread\<lparr>s_current_price := 103.2\<rparr>) = 4 \<and>
   \<not> should_exit_trade 0 short_engine_day_3 reentered_position
       (short_spread\<lparr>s_current_price := 103.2\<rparr>) \<and>
   positions_to_close 0 short_engine_day_3 = []"
    by (simp add: example_defs engine_defs)
  with short_run_day_3 show ?thesis by (rule conjI)
qed

text \<open>
  Claim C5, as amended: the exit check tests, in this order and stopping at the first
  that holds, whether the strategy is expired, whether the days held since entry are at
  least half the strategy's days to expiration counted from today's real date
  (expiration minus \<open>today\<close>, the same number on every simulated day and for every
  position, not the days that were left when the position was entered), whether the
  unrealized profit or loss is at least half the maximum profit (only when that is
  finite), and whether it is at most half the maximum loss; it answers yes if and only if
  one of the four holds. The positions that the daily exit check selects are the open
  positions whose strategy is found and for which the check answers yes.
\<close>

theorem should_exit_trade_rule:
  "(should_exit_trade today e p s \<longleftrightarrow>
      is_expired today s \<or>
      real_of_int (current_date e - p_entry_date p)
         \<ge> 0.5 * real_of_int (days_to_expiration today s) \<or>
      (\<exists>m. get_max_profit (s_legs s) = Fin m \<and> p_unrealized_pnl p \<ge> 0.5 * m) \<or>
      p_unrealized_pnl p \<le> 0.5 * get_max_loss (s_legs s)) \<and>
   (q \<in> set (positions_to_close today e) \<longleftrightarrow>
      q \<in> set (positions e) \<and>
      (\<exists>s'. find_strategy (p_symbol q) (strategies e) = Some s' \<and>
            should_exit_trade today e q s'))"
proof (rule conjI)
  show "should_exit_trade today e p s \<longleftrightarrow>
      is_expired today s \<or>
      real_of_int (current_date e - p_entry_date p)
         \<ge> 0.5 * real_of_int (days_to_expiration today s) \<or>
      (\<exists>m. get_max_profit (s_legs s) = Fin m \<and> p_unrealized_pnl p \<ge> 0.5 * m) \<or>
      p_unrealized_pnl p \<le> 0.5 * get_max_loss (s_legs s)"
    by (cases "get_max_profit (s_legs s)") (auto simp: should_exit_trade_def Let_def)
next
  show "q \<in> set (positions_to_close today e) \<longleftrightarrow>
      q \<in> set (positions e) \<and>
      (\<exists>s'. find_strategy (p_symbol q) (strategies e) = Some s' \<and>
            should_exit_trade today e q s')"
    by (auto simp: positions_to_close_def split: option.splits)
qed

text \<open>
  The open Iron Condor of \<open>example_engine\<close> on day 3: not expired, held 3 of 30 days,
  an unrealized loss of 5 that is below half the maximum profit (1.25) and below half
  the maximum loss (1.25), so only the fourth test holds, and the position is selected.
\<close>

theorem should_exit_trade_rule_witness:
  "\<not> is_expired 0 example_condor \<and>
   \<not> real_of_int (current_date example_engine - p_entry_date example_position)
        \<ge> 0.5 * real_of_int (days_to_expiration 0 example_condor) \<and>
   get_max_profit (s_legs example_condor) = Fin 2.5 \<and>
   \<not> p_unrealized_pnl example_position \<ge> 0.5 * 2.5 \<and>
   p_unrealized_pnl example_position \<le> 0.5 * get_max_loss (s_legs example_condor) \<and>
   should_exit_trade 0 example_engine example_position example_condor \<and>
   example_position \<in> set (positions_to_close 0 example_engine)"
  using should_exit_trade_rule [of 0 example_engine example_position example_condor example_position]
  by (simp add: example_defs is_expired_def days_to_expiration_def find_strategy_def)

text \<open>
  On day 0 of an engine with a Straddle and a Call Spread that both expire in 100 days,
  the Straddle is not entered and the Call Spread, which pays a net premium of 3, is.
\<close>

theorem entry_window_counterexample:
  "days_to_expiration 0 far_straddle = 100 \<and> days_to_expiration 0 far_call_spread = 100 \<and>
   get_max_loss (s_legs far_call_spread) = 3 \<and>
   map_sum id (\<lambda>e. map p_strategy_type (positions e)) (simulate_day 0 no_drift 0 debit_engine)
     = Inr [''CallSpread'']"
  by (simp add: example_defs engine_defs)

text \<open>
  Claim C6, as amended: the entry step of a simulated day opens a position for a
  strategy only if its position size is positive, the number of open positions is below
  the configured maximum, the strategy is not expired, no open position has its symbol,
  and, for a Straddle or Strangle, its days to expiration lie between 15 and 30
  inclusive. Call Spread, Put Spread and Butterfly have no window.
\<close>

theorem entry_conditions:
  assumes "enter_position today e s = Inr e'" and "positions e' \<noteq> positions e"
  shows "calculate_position_size e s > 0 \<and>
         int (length (positions e)) < max_concurrent_trades (config e) \<and>
         \<not> is_expired today s \<and>
         (\<forall>p \<in> set (positions e). p_symbol p \<noteq> s_symbol s) \<and>
         (class_name (s_legs s) = ''Straddle'' \<or> class_name (s_legs s) = ''Strangle'' \<longrightarrow>
            15 \<le> days_to_expiration today s \<and> days_to_expiration today s \<le> 30)"
proof -
  from assms obtain ok where ok: "should_enter_trade today e s = Inr ok"
    by (auto simp: enter_position_def split: sum.splits)
  with assms have "ok" and nf: "find (\<lambda>p. p_symbol p = s_symbol s) (positions e) = None"
    by (auto simp: enter_position_def split: if_splits option.splits)
  with ok have t: "should_enter_trade today e s = Inr True" by simp
  have "\<forall>p \<in> set (positions e). p_symbol p \<noteq> s_symbol s"
    using nf by (simp add: find_None_iff)
  moreover have "calculate_position_size e s > 0 \<and>
         int (length (positions e)) < max_concurrent_trades (config e) \<and>
         \<not> is_expired today s"
    using t by (auto simp: should_enter_trade_def Let_def split: if_splits)
  moreover have "class_name (s_legs s) = ''Straddle'' \<or> class_name (s_legs s) = ''Strangle'' \<longrightarrow>
            15 \<le> days_to_expiration today s \<and> days_to_expiration today s \<le> 30"
    using t by (cases "s_legs s")
      (auto simp: should_enter_trade_def Let_def split: if_splits list.splits)
  ultimately show ?thesis by blast
qed

text \<open>
  The Straddle of the smoke test, 21 days from expiration, entered into an engine
  without open positions: its size is 7.
\<close>

theorem entry_conditions_witness:
  "positions fresh_engine = [] \<and>
   (\<exists>e'. enter_position 0 fresh_engine example_straddle = Inr e' \<and>
         positions e' \<noteq> positions fresh_engine) \<and>
   class_name (s_legs example_straddle) = ''Straddle'' \<and>
   calculate_position_size fresh_engine example_straddle = 7 \<and>
   days_to_expiration 0 example_straddle = 21"
  using entry_conditions [OF enter_position_straddle enter_position_straddle_changes]
        enter_position_straddle enter_position_straddle_changes
  by (simp add: example_defs calculate_position_size_def py_int_def days_to_expiration_def)

section \<open>Simulation runs\<close>

text \<open>
  Claim C8, at an input where it fails: a run configured with an initial capital of 0
  sizes every position at 0, records no trade, and then raises ZeroDivisionError when it
  divides by the initial capital to compute the total return.
\<close>

theorem zero_capital_run_raises:
  "initial_capital (config zero_capital_engine) = 0 \<and>
   run_simulation 0 no_drift zero_capital_engine = Inl ZeroDivisionError"
proof -
  have "initial_capital (config zero_capital_engine) = 0"
    by (simp add: zero_capital_engine_def)
  then show ?thesis using run_simulation_zero_capital by blast
qed

text \<open>
  Claim C10: a position that the entry step opens is appended to the open positions with
  the identifier "P" followed by their number plus one, in four digits, and the current
  date as entry date; and identifiers repeat within a run. There is a run of two days in
  which a position opened on one day and a position opened on another day both carry
  the identifier P0001, and whose two trades are the closings of these two positions.
  (Neither the identifier nor the entry date of a position ever changes, lemma
  \<open>update_positions_identity\<close>, so two open positions with different entry dates are
  two records, made by two openings.)
\<close>

theorem position_ids_not_unique:
  "(enter_position today e s = Inr e' \<and> positions e' \<noteq> positions e \<longrightarrow>
      (\<exists>q. positions e' = positions e @ [q] \<and>
           p_id q = ''P'' @ format_04d (length (positions e) + 1) \<and>
           p_entry_date q = current_date e)) \<and>
   (\<exists>now nv e0 e1 e2 p1 p2 r ef t1 t2.
      simulation_days (config e0) = 2 \<and>
      run_days now nv 0 1 (reset_state now e0) = Inr e1 \<and>
      run_days now nv 0 2 (reset_state now e0) = Inr e2 \<and>
      run_simulation now nv e0 = Inr (r, ef) \<and>
      p1 \<in> set (positions e1) \<and> p2 \<in> set (positions e2) \<and>
      p_entry_date p1 \<noteq> p_entry_date p2 \<and>
      p_id p1 = ''P0001'' \<and> p_id p2 = ''P0001'' \<and>
      result_trades r = [t1, t2] \<and>
      t_entry_date t1 = p_entry_date p1 \<and> t_entry_date t2 = p_entry_date p2)"
proof (rule conjI)
  show "enter_position today e s = Inr e' \<and> positions e' \<noteq> positions e \<longrightarrow>
      (\<exists>q. positions e' = positions e @ [q] \<and>
           p_id q = ''P'' @ format_04d (length (positions e) + 1) \<and>
           p_entry_date q = current_date e)"
    using enter_position_appends [of today e s e'] by (auto simp: new_position_def)
next
  obtain r ef where run: "run_simulation 0 no_drift spread_engine = Inr (r, ef)"
    and tr: "result_trades r = [first_spread_trade, second_spread_trade]"
    using spread_run by blast
  let ?e1 = "spread_engine\<lparr>positions := [first_spread_position]\<rparr>"
  let ?e2 = "spread_engine\<lparr>positions := [second_spread_position],
       cash := 9970, current_date := 1, trade_counter := 1, draws := 1,
       trades := [first_spread_trade]\<rparr>"
  show "\<exists>now nv e0 e1 e2 p1 p2 r ef t1 t2.
      simulation_days (config e0) = 2 \<and>
      run_days now nv 0 1 (reset_state now e0) = Inr e1 \<and>
      run_days now nv 0 2 (reset_state now e0) = Inr e2 \<and>
      run_simulation now nv e0 = Inr (r, ef) \<and>
      p1 \<in> set (positions e1) \<and> p2 \<in> set (positions e2) \<and>
      p_entry_date p1 \<noteq> p_entry_date p2 \<and>
      p_id p1 = ''P0001'' \<and> p_id p2 = ''P0001'' \<and>
      result_trades r = [t1, t2] \<and>
      t_entry_date t1 = p_entry_date p1 \<and> t_entry_date t2 = p_entry_date p2"
  proof (intro exI conjI)
    show "simulation_days (config spread_engine) = 2"
      by (simp add: spread_engine_def)
    show "run_days 0 no_drift 0 1 (reset_state 0 spread_engine) = Inr ?e1"
      by (rule spread_day_1)
    show "run_days 0 no_drift 0 2 (reset_state 0 spread_engine) = Inr ?e2"
      by (rule spread_day_2)
    show "run_simulation 0 no_drift spread_engine = Inr (r, ef)" by (rule run)
    show "first_spread_position \<in> set (positions ?e1)" by simp
    show "second_spread_position \<in> set (positions ?e2)" by simp
    show "p_entry_date first_spread_position \<noteq> p_entry_date second_spread_position"
      by (simp add: first_spread_position_def second_spread_position_def)
    show "p_id first_spread_position = ''P0001''"
      by (simp add: first_spread_position_def)
    show "p_id second_spread_position = ''P0001''"
      by (simp add: second_spread_position_def)
    show "result_trades r = [first_spread_trade, second_spread_trade]" by (rule tr)
    show "t_entry_date first_spread_trade = p_entry_date first_spread_position"
      by (simp add: first_spread_trade_def first_spread_position_def)
    show "t_entry_date second_spread_trade = p_entry_date second_spread_position"
      by (simp add: second_spread_trade_def second_spread_position_def)
  qed
qed

text \<open>The first position of an engine without open positions is P0001.\<close>

theorem position_ids_not_unique_witness:
  "\<exists>e'. enter_position 0 fresh_engine example_condor = Inr e' \<and>
        positions e' \<noteq> positions fresh_engine \<and>
        map p_id (positions e') = [''P0001''] \<and>
        map p_entry_date (positions e') = [0]"
proof -
  let ?e' = "fresh_engine\<lparr>positions := [new_position fresh_engine example_condor 10]\<rparr>"
  have h3: "positions fresh_engine = []" "current_date fresh_engine = 0"
    by (simp_all add: example_defs)
  from position_ids_not_unique [of 0 fresh_engine example_condor ?e']
       enter_position_fresh enter_position_fresh_changes
  obtain q where "positions ?e' = positions fresh_engine @ [q]"
    and "p_id q = ''P'' @ format_04d (length (positions fresh_engine) + 1)"
    and "p_entry_date q = current_date fresh_engine"
    by blast
  then have h4: "map p_id (positions ?e') = [''P0001'']"
    and h5: "map p_entry_date (positions ?e') = [0]"
    using h3 format_04d_1 by simp_all
  show ?thesis
  proof (intro exI conjI)
    show "enter_position 0 fresh_engine example_condor = Inr ?e'"
      by (rule enter_position_fresh)
    show "positions ?e' \<noteq> positions fresh_engine"
      by (rule enter_position_fresh_changes)
    show "map p_id (positions ?e') = [''P0001'']"
      by (rule h4)
    show "map p_entry_date (positions ?e') = [0]"
      by (rule h5)
  qed
qed

end
